(* ===== verification/Prelude.thy ===== *)
theory Prelude
  imports Complex_Main
begin

text \<open>
  Shared vocabulary of the development. The gizmo code (\<open>src/blackjack_engine/src/gizmos.rs\<close>)
  computes with \<open>f32\<close> values through the glam crate; the model reads every \<open>f32\<close> as a
  \<open>real\<close> (rounding is not modelled). This theory holds the Rust standard-library float
  functions that glam calls, written with their Rust semantics where HOL's own functions
  differ (\<open>f32::signum 0 = 1\<close>, not \<open>sgn 0 = 0\<close>; \<open>atan2\<close> by quadrant, as libm computes it),
  the named collections the component theories fill, and generic lemmas on reals and
  trigonometry that the component proofs share.
\<close>

named_theorems glam_defs "unfolding rules of the modelled glam operations"
named_theorems gizmo_defs "unfolding rules of the modelled gizmo operations"

section \<open>Rust float primitives\<close>

text \<open>\<open>f32::atan2(y, x)\<close> (libm): the angle of the point \<open>(x, y)\<close>, in \<open>(-pi, pi]\<close>.\<close>

definition atan2 :: "real \<Rightarrow> real \<Rightarrow> real" where
  "atan2 y x =
     (if 0 < x then arctan (y / x)
      else if x < 0 then (if 0 \<le> y then arctan (y / x) + pi else arctan (y / x) - pi)
      else if 0 < y then pi / 2
      else if y < 0 then - (pi / 2)
      else 0)"

text \<open>\<open>f32::signum\<close>: \<open>1.0\<close> for zero and positive values, \<open>-1.0\<close> for negative ones.\<close>

definition f32_signum :: "real \<Rightarrow> real" where
  "f32_signum v = (if v < 0 then -1 else 1)"

section \<open>Trigonometric lemmas\<close>

lemma sin_cos_sq_mult [simp]: "sin x * sin x + cos x * cos x = (1::real)"
  using sin_cos_squared_add [of x] by (simp add: power2_eq_square)

lemma sin_cos_half:
  fixes a :: real
  shows "sin a = 2 * sin (a / 2) * cos (a / 2)"
    and "cos a = cos (a / 2) * cos (a / 2) - sin (a / 2) * sin (a / 2)"
  using sin_double [of "a / 2"] cos_double [of "a / 2"] by (simp_all add: power2_eq_square)

text \<open>glam's \<open>arc_clamp\<close> leaves a sine unchanged.\<close>

lemma arc_clamp_sin: "min (max (sin b) (- 1)) 1 = sin (b::real)"
  by simp

lemma tan_shift_pi: "tan (a - pi) = tan a" "tan (a + pi) = tan a"
  by (simp_all add: tan_def sin_diff cos_diff sin_add cos_add)

text \<open>
  \<open>atan2\<close> inverts the polar form: it returns the angle of the point
  \<open>(r cos a, r sin a)\<close> for any radius \<open>r > 0\<close> and any angle in \<open>(-pi, pi]\<close>.
\<close>

lemma atan2_polar:
  assumes r: "0 < r" and lo: "- pi < a" and hi: "a \<le> pi"
  shows "atan2 (r * sin a) (r * cos a) = a"
proof -
  consider "- (pi/2) < a \<and> a < pi/2" | "a = pi/2" | "a = - (pi/2)"
    | "pi/2 < a" | "a < - (pi/2)"
    by linarith
  then show ?thesis
  proof cases
    case 1
    then have c: "0 < cos a" by (simp add: cos_gt_zero_pi)
    have "arctan (tan a) = a" using 1 by (simp add: arctan_tan)
    with c r show ?thesis by (simp add: atan2_def tan_def)
  next
    case 2
    show ?thesis using r unfolding 2 by (simp add: atan2_def)
  next
    case 3
    show ?thesis using r unfolding 3 by (simp add: atan2_def)
  next
    case 4
    have "0 < cos (pi - a)" using 4 hi by (intro cos_gt_zero_pi) simp_all
    then have c: "cos a < 0" by simp
    have s: "0 \<le> sin a" using 4 hi by (intro sin_ge_zero) simp_all
    have "arctan (tan (a - pi)) = a - pi" using 4 hi by (intro arctan_tan) simp_all
    then have "arctan (tan a) = a - pi" by (simp only: tan_shift_pi)
    moreover have "r * cos a < 0" using r c by (rule mult_pos_neg)
    ultimately show ?thesis using s r by (simp add: atan2_def tan_def)
  next
    case 5
    have "0 < cos (a + pi)" using 5 lo by (intro cos_gt_zero_pi) simp_all
    then have c: "cos a < 0" by simp
    have "0 < sin (a + pi)" using 5 lo by (intro sin_gt_zero2) simp_all
    then have s: "sin a < 0" by simp
    have "arctan (tan (a + pi)) = a + pi" using 5 lo by (intro arctan_tan) simp_all
    then have "arctan (tan a) = a + pi" by (simp only: tan_shift_pi)
    moreover have "r * cos a < 0" using r c by (rule mult_pos_neg)
    moreover have "r * sin a < 0" using r s by (rule mult_pos_neg)
    ultimately show ?thesis using r by (simp add: atan2_def tan_def)
  qed
qed

text \<open>Like libm's, the result of \<open>atan2\<close> lies in \<open>(-pi, pi]\<close>.\<close>

lemma atan2_range: "- pi < atan2 y x \<and> atan2 y x \<le> pi"
proof -
  have b: "- (pi/2) < arctan (y / x)" "arctan (y / x) < pi/2" using arctan_bounded by auto
  consider "0 < x" | "x < 0" "0 \<le> y" | "x < 0" "y < 0" | "x = 0"
    by linarith
  then show ?thesis
  proof cases
    case 1
    with b show ?thesis by (simp add: atan2_def)
  next
    case 2
    then have "y / x \<le> 0" by (simp add: divide_nonneg_neg)
    with 2 b show ?thesis by (simp add: atan2_def)
  next
    case 3
    then have "0 < y / x" by (simp add: divide_neg_neg)
    with 3 b show ?thesis by (simp add: atan2_def)
  next
    case 4
    with pi_ge_two show ?thesis by (auto simp: atan2_def)
  qed
qed

text \<open>
  Dividing by the square root of \<open>4 c\<^sup>2\<close>, as glam's \<open>from_rotation_axes\<close> does,
  multiplies by the sign of \<open>c\<close>.
\<close>

lemma half_div_sqrt_sq: "(c::real) \<noteq> 0 \<Longrightarrow> 0.5 / sqrt (4 * (c * c)) = sgn c / (4 * c)"
proof -
  assume c: "c \<noteq> 0"
  have "sqrt (4 * (c * c)) = 2 * \<bar>c\<bar>"
    by (simp add: real_sqrt_mult power2_eq_square [symmetric])
  then show ?thesis using c by (simp add: sgn_real_def field_simps abs_if)
qed

lemma sgn_cancel:
  "(c::real) \<noteq> 0 \<Longrightarrow> 4 * c * d * (sgn c / (4 * c)) = sgn c * d"
  "(c::real) \<noteq> 0 \<Longrightarrow> 4 * (c * c) * (sgn c / (4 * c)) = sgn c * c"
  by (simp_all add: field_simps)


text \<open>
  The cosine and sine of \<open>atan2 y x\<close> are \<open>x\<close> and \<open>y\<close> over the length of
  \<open>(x, y)\<close>, away from the origin; and the clamped \<open>asin\<close> of \<open>to_euler\<close>
  is strictly inside \<open>(-pi/2, pi/2)\<close> only when its argument is inside \<open>(-1, 1)\<close>.
\<close>

lemma sqrt_sum_sq_div:
  fixes x y :: real
  assumes "x \<noteq> 0"
  shows "sqrt (1 + (y / x)\<^sup>2) = sqrt (x\<^sup>2 + y\<^sup>2) / \<bar>x\<bar>"
proof -
  have "1 + (y / x)\<^sup>2 = (x\<^sup>2 + y\<^sup>2) / x\<^sup>2" using assms by (simp add: field_simps)
  then show ?thesis by (simp add: real_sqrt_divide)
qed

lemma cos_sin_atan2:
  fixes x y :: real
  assumes nz: "x \<noteq> 0 \<or> y \<noteq> 0"
  shows "cos (atan2 y x) = x / sqrt (x\<^sup>2 + y\<^sup>2) \<and> sin (atan2 y x) = y / sqrt (x\<^sup>2 + y\<^sup>2)"
proof (cases "x = 0")
  case True
  with nz have "y \<noteq> 0" by simp
  with True show ?thesis by (auto simp: atan2_def)
next
  case False
  have "0 < x\<^sup>2" using False by simp
  then have r: "0 < sqrt (x\<^sup>2 + y\<^sup>2)" by (simp add: add_pos_nonneg)
  have c: "cos (arctan (y / x)) = \<bar>x\<bar> / sqrt (x\<^sup>2 + y\<^sup>2)"
    using False r by (simp add: cos_arctan sqrt_sum_sq_div)
  have s: "sin (arctan (y / x)) = (y / x) * \<bar>x\<bar> / sqrt (x\<^sup>2 + y\<^sup>2)"
    using False r by (simp add: sin_arctan sqrt_sum_sq_div)
  show ?thesis
  proof (cases "0 < x")
    case True
    with c s show ?thesis by (simp add: atan2_def)
  next
    case neg: False
    with \<open>x \<noteq> 0\<close> have "x < 0" by simp
    with c s show ?thesis by (simp add: atan2_def)
  qed
qed

lemma arcsin_clamp_inside:
  fixes s :: real
  assumes "- (pi / 2) < arcsin (min (max s (- 1)) 1)" "arcsin (min (max s (- 1)) 1) < pi / 2"
  shows "- 1 < s \<and> s < 1"
proof (rule ccontr)
  assume "\<not> (- 1 < s \<and> s < 1)"
  then have "min (max s (- 1)) 1 = 1 \<or> min (max s (- 1)) 1 = - 1" by auto
  with assms show False by auto
qed


text \<open>
  Signs of scale components: dividing a component by its absolute value gives its sign,
  and dividing by \<open>|sx| * signum(sx sy sz)\<close> (the first scale component
  \<open>to_scale_rotation_translation\<close> recovers) leaves the sign of \<open>sy sz\<close>.
\<close>

lemma sgn_abs_recip: "(s::real) * (1 / \<bar>s\<bar>) = sgn s"
  by (simp add: sgn_real_def)

lemma sgn_pm1: "(s::real) \<noteq> 0 \<Longrightarrow> sgn s = 1 \<or> sgn s = -1"
  by (simp add: sgn_real_def)

lemma scale_sign_factor:
  fixes sx sy sz :: real
  assumes "sx \<noteq> 0" "sy \<noteq> 0" "sz \<noteq> 0"
  shows "sx * (1 / (\<bar>sx\<bar> * f32_signum (sx * sy * sz))) = sgn sy * sgn sz"
  using assms
  by (cases "0 < sx"; cases "0 < sy"; cases "0 < sz")
     (simp_all add: f32_signum_def mult_less_0_iff zero_less_mult_iff)

end
