(* ===== verification/Glam.thy ===== *)
theory Glam
  imports Prelude
begin

text \<open>
  The glam operations that \<open>gizmos.rs\<close> calls, with the semantics of glam 0.21 (the
  linear-algebra crate the engine depends on), over the reals. glam is not code of this
  repository: these definitions are the environment the gizmo model is stated in, each
  following the body of the glam function it names (\<open>quat.rs\<close>, \<open>euler.rs\<close>,
  \<open>mat4.rs\<close>), with the same variable names and operation order. Debug assertions
  (\<open>glam_assert!\<close>, off in default builds) are not modelled; where glam divides by a
  length or a determinant that may be zero, HOL's \<open>x / 0 = 0\<close> stands for the
  non-finite float the code would produce, and no lemma relies on that case.
\<close>

section \<open>Vectors, quaternions, matrices\<close>

record vec3 =
  x3 :: real
  y3 :: real
  z3 :: real

record vec4 =
  x4 :: real
  y4 :: real
  z4 :: real
  w4 :: real

record quat =
  qx :: real
  qy :: real
  qz :: real
  qw :: real

text \<open>\<open>Mat4\<close> is stored by columns, as in glam.\<close>

record mat4 =
  x_axis :: vec4
  y_axis :: vec4
  z_axis :: vec4
  w_axis :: vec4

definition vec3_new :: "real \<Rightarrow> real \<Rightarrow> real \<Rightarrow> vec3" where
  "vec3_new x y z = \<lparr>x3 = x, y3 = y, z3 = z\<rparr>"

definition quat_from_xyzw :: "real \<Rightarrow> real \<Rightarrow> real \<Rightarrow> real \<Rightarrow> quat" where
  "quat_from_xyzw x y z w = \<lparr>qx = x, qy = y, qz = z, qw = w\<rparr>"

section \<open>Quaternion operations\<close>

text \<open>\<open>Quat::mul_quat\<close>: the Hamilton product, component formulas as in glam.\<close>

definition quat_mul :: "quat \<Rightarrow> quat \<Rightarrow> quat" where
  "quat_mul a b =
     (let x0 = qx a; y0 = qy a; z0 = qz a; w0 = qw a;
          x1 = qx b; y1 = qy b; z1 = qz b; w1 = qw b
      in quat_from_xyzw
           (w0 * x1 + x0 * w1 + y0 * z1 - z0 * y1)
           (w0 * y1 - x0 * z1 + y0 * w1 + z0 * x1)
           (w0 * z1 + x0 * y1 - y0 * x1 + z0 * w1)
           (w0 * w1 - x0 * x1 - y0 * y1 - z0 * z1))"

definition quat_dot :: "quat \<Rightarrow> quat \<Rightarrow> real" where
  "quat_dot a b = qx a * qx b + qy a * qy b + qz a * qz b + qw a * qw b"

definition quat_length :: "quat \<Rightarrow> real" where
  "quat_length q = sqrt (quat_dot q q)"

text \<open>\<open>Quat::normalize\<close>: the quaternion times \<open>length_recip\<close>.\<close>

definition quat_normalize :: "quat \<Rightarrow> quat" where
  "quat_normalize q =
     (let r = 1 / quat_length q in quat_from_xyzw (qx q * r) (qy q * r) (qz q * r) (qw q * r))"

definition quat_from_rotation_x :: "real \<Rightarrow> quat" where
  "quat_from_rotation_x angle =
     (let s = sin (angle / 2); c = cos (angle / 2) in quat_from_xyzw s 0 0 c)"

definition quat_from_rotation_y :: "real \<Rightarrow> quat" where
  "quat_from_rotation_y angle =
     (let s = sin (angle / 2); c = cos (angle / 2) in quat_from_xyzw 0 s 0 c)"

definition quat_from_rotation_z :: "real \<Rightarrow> quat" where
  "quat_from_rotation_z angle =
     (let s = sin (angle / 2); c = cos (angle / 2) in quat_from_xyzw 0 0 s c)"

text \<open>
  \<open>Quat::from_euler(EulerRot::XYZ, a, b, c)\<close> (\<open>euler.rs\<close>, \<open>new_quat\<close>):
  \<open>(rot_x(a) * rot_y(b) * rot_z(c)).normalize()\<close>, the product taken from the left.
\<close>

definition quat_from_euler_xyz :: "real \<Rightarrow> real \<Rightarrow> real \<Rightarrow> quat" where
  "quat_from_euler_xyz a b c =
     quat_normalize
       (quat_mul (quat_mul (quat_from_rotation_x a) (quat_from_rotation_y b))
         (quat_from_rotation_z c))"

text \<open>
  \<open>Quat::to_euler(EulerRot::XYZ)\<close> (\<open>euler.rs\<close>, \<open>first\<close>, \<open>second\<close>,
  \<open>third\<close>): two \<open>atan2\<close>s and an \<open>asin\<close> of an argument clamped to
  \<open>[-1, 1]\<close> (\<open>arc_clamp\<close>: \<open>min(max(v, -1), 1)\<close>).
\<close>

definition quat_to_euler_xyz :: "quat \<Rightarrow> real \<times> real \<times> real" where
  "quat_to_euler_xyz q =
     (let x = qx q; y = qy q; z = qz q; w = qw q
      in (atan2 (2 * (w * x - y * z)) (w * w - x * x - y * y + z * z),
          arcsin (min (max (2 * (x * z + w * y)) (- 1)) 1),
          atan2 (2 * (w * z - x * y)) (w * w + x * x - y * y - z * z)))"

section \<open>Matrix operations\<close>

definition vec4_mul :: "vec4 \<Rightarrow> real \<Rightarrow> vec4" where
  "vec4_mul v s = \<lparr>x4 = x4 v * s, y4 = y4 v * s, z4 = z4 v * s, w4 = w4 v * s\<rparr>"

definition vec4_length :: "vec4 \<Rightarrow> real" where
  "vec4_length v = sqrt (x4 v * x4 v + y4 v * y4 v + z4 v * z4 v + w4 v * w4 v)"

definition vec4_xyz :: "vec4 \<Rightarrow> vec3" where
  "vec4_xyz v = \<lparr>x3 = x4 v, y3 = y4 v, z3 = z4 v\<rparr>"

text \<open>\<open>Vec4::from((v, w))\<close>.\<close>

definition vec4_from_vec3 :: "vec3 \<Rightarrow> real \<Rightarrow> vec4" where
  "vec4_from_vec3 v w = \<lparr>x4 = x3 v, y4 = y3 v, z4 = z3 v, w4 = w\<rparr>"

text \<open>\<open>Mat4::quat_to_axes\<close>: the three rotated basis vectors.\<close>

definition quat_to_axes :: "quat \<Rightarrow> vec4 \<times> vec4 \<times> vec4" where
  "quat_to_axes rotation =
     (let x = qx rotation; y = qy rotation; z = qz rotation; w = qw rotation;
          x2 = x + x; y2 = y + y; z2 = z + z;
          xx = x * x2; xy = x * y2; xz = x * z2;
          yy = y * y2; yz = y * z2; zz = z * z2;
          wx = w * x2; wy = w * y2; wz = w * z2
      in (\<lparr>x4 = 1 - (yy + zz), y4 = xy + wz, z4 = xz - wy, w4 = 0\<rparr>,
          \<lparr>x4 = xy - wz, y4 = 1 - (xx + zz), z4 = yz + wx, w4 = 0\<rparr>,
          \<lparr>x4 = xz + wy, y4 = yz - wx, z4 = 1 - (xx + yy), w4 = 0\<rparr>))"

definition mat4_from_scale_rotation_translation :: "vec3 \<Rightarrow> quat \<Rightarrow> vec3 \<Rightarrow> mat4" where
  "mat4_from_scale_rotation_translation scale rotation translation =
     (let (xa, ya, za) = quat_to_axes rotation
      in \<lparr>x_axis = vec4_mul xa (x3 scale), y_axis = vec4_mul ya (y3 scale),
          z_axis = vec4_mul za (z3 scale), w_axis = vec4_from_vec3 translation 1\<rparr>)"

text \<open>\<open>Mat4::determinant\<close>: cofactor expansion along the first column, as glam writes it.\<close>

definition mat4_determinant :: "mat4 \<Rightarrow> real" where
  "mat4_determinant m =
     (let m00 = x4 (x_axis m); m01 = y4 (x_axis m); m02 = z4 (x_axis m); m03 = w4 (x_axis m);
          m10 = x4 (y_axis m); m11 = y4 (y_axis m); m12 = z4 (y_axis m); m13 = w4 (y_axis m);
          m20 = x4 (z_axis m); m21 = y4 (z_axis m); m22 = z4 (z_axis m); m23 = w4 (z_axis m);
          m30 = x4 (w_axis m); m31 = y4 (w_axis m); m32 = z4 (w_axis m); m33 = w4 (w_axis m);
          a2323 = m22 * m33 - m23 * m32;
          a1323 = m21 * m33 - m23 * m31;
          a1223 = m21 * m32 - m22 * m31;
          a0323 = m20 * m33 - m23 * m30;
          a0223 = m20 * m32 - m22 * m30;
          a0123 = m20 * m31 - m21 * m30
      in m00 * (m11 * a2323 - m12 * a1323 + m13 * a1223)
         - m01 * (m10 * a2323 - m12 * a0323 + m13 * a0223)
         + m02 * (m10 * a1323 - m11 * a0323 + m13 * a0123)
         - m03 * (m10 * a1223 - m11 * a0223 + m12 * a0123))"

text \<open>
  \<open>Quat::from_rotation_axes\<close>: the rotation of an orthonormal basis, by the branch on
  the largest of \<open>x\<^sup>2, y\<^sup>2, z\<^sup>2, w\<^sup>2\<close> (DirectXMath's method, as glam has it).
\<close>

definition quat_from_rotation_axes :: "vec3 \<Rightarrow> vec3 \<Rightarrow> vec3 \<Rightarrow> quat" where
  "quat_from_rotation_axes xa ya za =
     (let m00 = x3 xa; m01 = y3 xa; m02 = z3 xa;
          m10 = x3 ya; m11 = y3 ya; m12 = z3 ya;
          m20 = x3 za; m21 = y3 za; m22 = z3 za
      in if m22 \<le> 0 then
           (let dif10 = m11 - m00; omm22 = 1 - m22
            in if dif10 \<le> 0 then
                 (let four_xsq = omm22 - dif10; inv4x = 0.5 / sqrt four_xsq
                  in quat_from_xyzw (four_xsq * inv4x) ((m01 + m10) * inv4x)
                       ((m02 + m20) * inv4x) ((m12 - m21) * inv4x))
               else
                 (let four_ysq = omm22 + dif10; inv4y = 0.5 / sqrt four_ysq
                  in quat_from_xyzw ((m01 + m10) * inv4y) (four_ysq * inv4y)
                       ((m12 + m21) * inv4y) ((m20 - m02) * inv4y)))
         else
           (let sum10 = m11 + m00; opm22 = 1 + m22
            in if sum10 \<le> 0 then
                 (let four_zsq = opm22 - sum10; inv4z = 0.5 / sqrt four_zsq
                  in quat_from_xyzw ((m02 + m20) * inv4z) ((m12 + m21) * inv4z)
                       (four_zsq * inv4z) ((m01 - m10) * inv4z))
               else
                 (let four_wsq = opm22 + sum10; inv4w = 0.5 / sqrt four_wsq
                  in quat_from_xyzw ((m12 - m21) * inv4w) ((m20 - m02) * inv4w)
                       ((m01 - m10) * inv4w) (four_wsq * inv4w))))"

text \<open>
  \<open>Mat4::to_scale_rotation_translation\<close>: the column lengths (the first signed by the
  determinant, with \<open>f32::signum\<close>), the rotation of the columns divided by the scale
  (\<open>Vec3::recip\<close>), and the translation column.
\<close>

definition mat4_to_scale_rotation_translation :: "mat4 \<Rightarrow> vec3 \<times> quat \<times> vec3" where
  "mat4_to_scale_rotation_translation m =
     (let det = mat4_determinant m;
          scale = vec3_new (vec4_length (x_axis m) * f32_signum det)
                    (vec4_length (y_axis m)) (vec4_length (z_axis m));
          inv_scale = vec3_new (1 / x3 scale) (1 / y3 scale) (1 / z3 scale);
          rotation = quat_from_rotation_axes
                       (vec4_xyz (vec4_mul (x_axis m) (x3 inv_scale)))
                       (vec4_xyz (vec4_mul (y_axis m) (y3 inv_scale)))
                       (vec4_xyz (vec4_mul (z_axis m) (z3 inv_scale)));
          translation = vec4_xyz (w_axis m)
      in (scale, rotation, translation))"

text \<open>
  When \<open>to_scale_rotation_translation\<close> stays finite in \<open>f32\<close>. A zero scale
  component makes \<open>Vec3::recip\<close> infinite, and the zero column times infinity is NaN;
  in \<open>from_rotation_axes\<close>, a radicand \<open>four_*sq \<le> 0\<close> in the branch taken
  gives \<open>sqrt\<close> of a negative number (NaN) or \<open>0.5 / 0\<close> (infinite, and
  \<open>0 * inf\<close> is NaN). \<open>from_rotation_axes_radicand\<close> is that radicand, by the
  code's branches; \<open>mat4_srt_finite m\<close> holds exactly when neither happens, so that
  the real-valued model above computes what the \<open>f32\<close> code computes (rounding aside).
\<close>

definition from_rotation_axes_radicand :: "vec3 \<Rightarrow> vec3 \<Rightarrow> vec3 \<Rightarrow> real" where
  "from_rotation_axes_radicand xa ya za =
     (let m00 = x3 xa; m11 = y3 ya; m22 = z3 za
      in if m22 \<le> 0 then
           (let dif10 = m11 - m00; omm22 = 1 - m22
            in if dif10 \<le> 0 then omm22 - dif10 else omm22 + dif10)
         else
           (let sum10 = m11 + m00; opm22 = 1 + m22
            in if sum10 \<le> 0 then opm22 - sum10 else opm22 + sum10))"

definition mat4_srt_finite :: "mat4 \<Rightarrow> bool" where
  "mat4_srt_finite m =
     (let s = fst (mat4_to_scale_rotation_translation m)
      in x3 s \<noteq> 0 \<and> y3 s \<noteq> 0 \<and> z3 s \<noteq> 0
         \<and> 0 < from_rotation_axes_radicand (vec4_xyz (vec4_mul (x_axis m) (1 / x3 s)))
                 (vec4_xyz (vec4_mul (y_axis m) (1 / y3 s))) (vec4_xyz (vec4_mul (z_axis m) (1 / z3 s))))"

subsection \<open>Unit quaternions\<close>

text \<open>
  A rotation quaternion has norm one. glam's \<open>is_normalized\<close> tests this up to a float
  tolerance; over the reals it is an equation.
\<close>

definition quat_unit :: "quat \<Rightarrow> bool" where
  "quat_unit q \<longleftrightarrow> quat_dot q q = 1"

section \<open>What a transform means\<close>

text \<open>
  Reference notions the lemmas state glam's operations against (glam has most of them
  too, but \<open>gizmos.rs\<close> does not call them): applying a matrix to a point
  (\<open>Mat4::transform_point3\<close>), the rotation of a vector by a quaternion as the
  sandwich \<open>q v q\<^sup>*\<close>, and the rotations about the three axes by an angle.
\<close>

definition vec3_add :: "vec3 \<Rightarrow> vec3 \<Rightarrow> vec3" where
  "vec3_add a b = vec3_new (x3 a + x3 b) (y3 a + y3 b) (z3 a + z3 b)"

definition vec3_mul :: "vec3 \<Rightarrow> vec3 \<Rightarrow> vec3" where
  "vec3_mul a b = vec3_new (x3 a * x3 b) (y3 a * y3 b) (z3 a * z3 b)"

definition mat4_transform_point3 :: "mat4 \<Rightarrow> vec3 \<Rightarrow> vec3" where
  "mat4_transform_point3 m p =
     vec3_new (x4 (x_axis m) * x3 p + x4 (y_axis m) * y3 p + x4 (z_axis m) * z3 p + x4 (w_axis m))
              (y4 (x_axis m) * x3 p + y4 (y_axis m) * y3 p + y4 (z_axis m) * z3 p + y4 (w_axis m))
              (z4 (x_axis m) * x3 p + z4 (y_axis m) * y3 p + z4 (z_axis m) * z3 p + z4 (w_axis m))"

definition quat_conjugate :: "quat \<Rightarrow> quat" where
  "quat_conjugate q = quat_from_xyzw (- qx q) (- qy q) (- qz q) (qw q)"

definition quat_pure :: "vec3 \<Rightarrow> quat" where
  "quat_pure v = quat_from_xyzw (x3 v) (y3 v) (z3 v) 0"

definition quat_rotate :: "quat \<Rightarrow> vec3 \<Rightarrow> vec3" where
  "quat_rotate q v =
     (let r = quat_mul (quat_mul q (quat_pure v)) (quat_conjugate q) in vec3_new (qx r) (qy r) (qz r))"

definition rotate_x :: "real \<Rightarrow> vec3 \<Rightarrow> vec3" where
  "rotate_x a v = vec3_new (x3 v) (cos a * y3 v - sin a * z3 v) (sin a * y3 v + cos a * z3 v)"

definition rotate_y :: "real \<Rightarrow> vec3 \<Rightarrow> vec3" where
  "rotate_y a v = vec3_new (cos a * x3 v + sin a * z3 v) (y3 v) (cos a * z3 v - sin a * x3 v)"

definition rotate_z :: "real \<Rightarrow> vec3 \<Rightarrow> vec3" where
  "rotate_z a v = vec3_new (cos a * x3 v - sin a * y3 v) (sin a * x3 v + cos a * y3 v) (z3 v)"

section \<open>Lemmas: unit quaternions\<close>

text \<open>The norm is multiplicative (Euler's four-square identity).\<close>

lemma quat_dot_mul: "quat_dot (quat_mul a b) (quat_mul a b) = quat_dot a a * quat_dot b b"
  unfolding quat_mul_def quat_dot_def quat_from_xyzw_def Let_def by simp algebra

lemma quat_unit_mul [intro]: "quat_unit a \<Longrightarrow> quat_unit b \<Longrightarrow> quat_unit (quat_mul a b)"
  by (simp add: quat_unit_def quat_dot_mul)

lemma quat_unit_rotation [intro]:
  "quat_unit (quat_from_rotation_x a)" "quat_unit (quat_from_rotation_y a)"
  "quat_unit (quat_from_rotation_z a)"
  by (simp_all add: quat_unit_def quat_dot_def quat_from_xyzw_def quat_from_rotation_x_def
      quat_from_rotation_y_def quat_from_rotation_z_def)

lemma quat_normalize_unit: "quat_unit q \<Longrightarrow> quat_normalize q = q"
  by (simp add: quat_unit_def quat_normalize_def quat_length_def quat_from_xyzw_def)

text \<open>
  The product of the three axis rotations is already a unit quaternion, so the final
  \<open>normalize\<close> of \<open>from_euler\<close> changes nothing.
\<close>

lemma quat_from_euler_xyz_product:
  "quat_from_euler_xyz a b c =
     quat_mul (quat_mul (quat_from_rotation_x a) (quat_from_rotation_y b)) (quat_from_rotation_z c)"
  unfolding quat_from_euler_xyz_def by (intro quat_normalize_unit quat_unit_mul quat_unit_rotation)

lemma quat_unit_from_euler_xyz [intro]: "quat_unit (quat_from_euler_xyz a b c)"
  unfolding quat_from_euler_xyz_product by (intro quat_unit_mul quat_unit_rotation)

section \<open>Lemmas: rotation of vectors\<close>

lemma quat_mul_assoc: "quat_mul (quat_mul a b) c = quat_mul a (quat_mul b c)"
  unfolding quat_mul_def quat_from_xyzw_def Let_def by (simp add: algebra_simps)

lemma quat_conjugate_mul:
  "quat_conjugate (quat_mul a b) = quat_mul (quat_conjugate b) (quat_conjugate a)"
  unfolding quat_mul_def quat_conjugate_def quat_from_xyzw_def Let_def by (simp add: algebra_simps)

text \<open>The sandwich of a pure quaternion is pure: \<open>quat_rotate\<close> loses nothing.\<close>

lemma quat_sandwich_pure:
  "quat_mul (quat_mul q (quat_pure v)) (quat_conjugate q) = quat_pure (quat_rotate q v)"
  unfolding quat_rotate_def quat_pure_def quat_mul_def quat_conjugate_def quat_from_xyzw_def
    vec3_new_def Let_def
  by (simp add: algebra_simps)

lemma quat_pure_inject: "quat_pure a = quat_pure b \<Longrightarrow> a = b"
  by (cases a, cases b) (simp add: quat_pure_def quat_from_xyzw_def)

text \<open>Rotating by a product is rotating by the right factor, then by the left one.\<close>

lemma quat_rotate_mul: "quat_rotate (quat_mul p q) v = quat_rotate p (quat_rotate q v)"
proof -
  have "quat_mul (quat_mul (quat_mul p q) (quat_pure v)) (quat_conjugate (quat_mul p q))
      = quat_mul (quat_mul p (quat_mul (quat_mul q (quat_pure v)) (quat_conjugate q)))
          (quat_conjugate p)"
    by (simp add: quat_conjugate_mul quat_mul_assoc)
  then have "quat_pure (quat_rotate (quat_mul p q) v) = quat_pure (quat_rotate p (quat_rotate q v))"
    by (simp only: quat_sandwich_pure)
  then show ?thesis by (rule quat_pure_inject)
qed

text \<open>
  The axis quaternions, with \<open>s, c\<close> any point of the unit circle (the half-angle sine
  and cosine), rotate by the double angle about their axis.
\<close>

lemma quat_rotate_axis_x:
  "s * s + c * c = 1 \<Longrightarrow> quat_rotate (quat_from_xyzw s 0 0 c) v =
     vec3_new (x3 v) ((c * c - s * s) * y3 v - 2 * s * c * z3 v)
       (2 * s * c * y3 v + (c * c - s * s) * z3 v)"
  unfolding quat_rotate_def quat_pure_def quat_mul_def quat_conjugate_def quat_from_xyzw_def
    vec3_new_def Let_def
  by simp algebra

lemma quat_rotate_axis_y:
  "s * s + c * c = 1 \<Longrightarrow> quat_rotate (quat_from_xyzw 0 s 0 c) v =
     vec3_new ((c * c - s * s) * x3 v + 2 * s * c * z3 v) (y3 v)
       ((c * c - s * s) * z3 v - 2 * s * c * x3 v)"
  unfolding quat_rotate_def quat_pure_def quat_mul_def quat_conjugate_def quat_from_xyzw_def
    vec3_new_def Let_def
  by simp algebra

lemma quat_rotate_axis_z:
  "s * s + c * c = 1 \<Longrightarrow> quat_rotate (quat_from_xyzw 0 0 s c) v =
     vec3_new ((c * c - s * s) * x3 v - 2 * s * c * y3 v)
       (2 * s * c * x3 v + (c * c - s * s) * y3 v) (z3 v)"
  unfolding quat_rotate_def quat_pure_def quat_mul_def quat_conjugate_def quat_from_xyzw_def
    vec3_new_def Let_def
  by simp algebra

lemma quat_rotate_x: "quat_rotate (quat_from_rotation_x a) v = rotate_x a v"
  unfolding quat_from_rotation_x_def Let_def rotate_x_def sin_cos_half [of a]
  by (rule quat_rotate_axis_x) simp

lemma quat_rotate_y: "quat_rotate (quat_from_rotation_y a) v = rotate_y a v"
  unfolding quat_from_rotation_y_def Let_def rotate_y_def sin_cos_half [of a]
  by (rule quat_rotate_axis_y) simp

lemma quat_rotate_z: "quat_rotate (quat_from_rotation_z a) v = rotate_z a v"
  unfolding quat_from_rotation_z_def Let_def rotate_z_def sin_cos_half [of a]
  by (rule quat_rotate_axis_z) simp

text \<open>
  \<open>from_euler(XYZ, a, b, c)\<close> is the intrinsic XYZ rotation: the vector is turned about
  Z by \<open>c\<close>, then about Y by \<open>b\<close>, then about X by \<open>a\<close>.
\<close>

lemma quat_rotate_from_euler_xyz:
  "quat_rotate (quat_from_euler_xyz a b c) v = rotate_x a (rotate_y b (rotate_z c v))"
  by (simp add: quat_from_euler_xyz_product quat_rotate_mul quat_rotate_x quat_rotate_y quat_rotate_z)

section \<open>Lemmas: matrices\<close>

text \<open>
  For a unit quaternion, the matrix \<open>from_scale_rotation_translation\<close> builds maps a
  point \<open>p\<close> to \<open>q (s * p) q\<^sup>* + t\<close>: scale, then rotate, then translate.
\<close>

lemma transform_from_scale_rotation_translation:
  assumes "quat_unit q"
  shows "mat4_transform_point3 (mat4_from_scale_rotation_translation s q t) p =
         vec3_add (quat_rotate q (vec3_mul s p)) t"
  using assms
  unfolding mat4_transform_point3_def mat4_from_scale_rotation_translation_def quat_to_axes_def
    quat_rotate_def quat_pure_def quat_mul_def quat_conjugate_def quat_from_xyzw_def vec3_new_def
    Let_def vec3_add_def vec3_mul_def vec4_mul_def vec4_from_vec3_def quat_unit_def quat_dot_def
  by simp algebra

text \<open>Column lengths and the determinant of a scale-rotation-translation matrix.\<close>

lemma vec4_length_mul: "vec4_length (vec4_mul v s) = \<bar>s\<bar> * vec4_length v"
proof -
  have "x4 v * s * (x4 v * s) + y4 v * s * (y4 v * s) + z4 v * s * (z4 v * s) + w4 v * s * (w4 v * s)
      = s\<^sup>2 * (x4 v * x4 v + y4 v * y4 v + z4 v * z4 v + w4 v * w4 v)"
    by (simp add: algebra_simps power2_eq_square)
  then show ?thesis by (simp add: vec4_length_def vec4_mul_def real_sqrt_mult)
qed

lemma quat_to_axes_unit_length:
  assumes u: "quat_unit q"
  shows "vec4_length (fst (quat_to_axes q)) = 1" "vec4_length (fst (snd (quat_to_axes q))) = 1"
    "vec4_length (snd (snd (quat_to_axes q))) = 1"
proof -
  have n: "qx q * qx q + qy q * qy q + qz q * qz q + qw q * qw q = 1"
    using u by (simp add: quat_unit_def quat_dot_def)
  show "vec4_length (fst (quat_to_axes q)) = 1"
    using n unfolding quat_to_axes_def Let_def vec4_length_def by simp algebra
  show "vec4_length (fst (snd (quat_to_axes q))) = 1"
    using n unfolding quat_to_axes_def Let_def vec4_length_def by simp algebra
  show "vec4_length (snd (snd (quat_to_axes q))) = 1"
    using n unfolding quat_to_axes_def Let_def vec4_length_def by simp algebra
qed

lemma determinant_from_scale_rotation_translation:
  assumes u: "quat_unit q"
  shows "mat4_determinant (mat4_from_scale_rotation_translation s q t) = x3 s * y3 s * z3 s"
proof -
  have n: "qx q * qx q + qy q * qy q + qz q * qz q + qw q * qw q = 1"
    using u by (simp add: quat_unit_def quat_dot_def)
  then show ?thesis
    unfolding mat4_determinant_def mat4_from_scale_rotation_translation_def quat_to_axes_def Let_def
      vec4_mul_def vec4_from_vec3_def
    by simp algebra
qed

lemma mat4_from_scale_rotation_translation_axes:
  "x_axis (mat4_from_scale_rotation_translation s q t) = vec4_mul (fst (quat_to_axes q)) (x3 s)"
  "y_axis (mat4_from_scale_rotation_translation s q t) = vec4_mul (fst (snd (quat_to_axes q))) (y3 s)"
  "z_axis (mat4_from_scale_rotation_translation s q t) = vec4_mul (snd (snd (quat_to_axes q))) (z3 s)"
  "w_axis (mat4_from_scale_rotation_translation s q t) = vec4_from_vec3 t 1"
  by (simp_all add: mat4_from_scale_rotation_translation_def split: prod.split)

text \<open>
  Decomposing a matrix built from a unit quaternion gives back the translation, and the
  scale up to sign: the lengths of the columns, the first signed by the determinant.
\<close>

lemma to_scale_rotation_translation_from:
  assumes u: "quat_unit q"
  shows "fst (mat4_to_scale_rotation_translation (mat4_from_scale_rotation_translation s q t)) =
           vec3_new (\<bar>x3 s\<bar> * f32_signum (x3 s * y3 s * z3 s)) \<bar>y3 s\<bar> \<bar>z3 s\<bar>"
    and "snd (snd (mat4_to_scale_rotation_translation (mat4_from_scale_rotation_translation s q t)))
           = t"
  using quat_to_axes_unit_length [OF u] determinant_from_scale_rotation_translation [OF u]
  by (simp_all add: mat4_to_scale_rotation_translation_def Let_def
      mat4_from_scale_rotation_translation_axes vec4_length_mul vec4_xyz_def vec4_from_vec3_def)

section \<open>Lemmas: Euler angles\<close>

text \<open>
  The quaternion \<open>from_euler\<close> builds, read back through the expressions of
  \<open>to_euler\<close>: each is a product of full-angle sines and cosines (half-angle formulas,
  then \<open>algebra\<close> modulo \<open>sin\<^sup>2 + cos\<^sup>2 = 1\<close>).
\<close>

lemma euler_xyz_components:
  fixes a b c :: real
  defines "q \<equiv> quat_from_euler_xyz a b c"
  shows "2 * (qw q * qx q - qy q * qz q) = cos b * sin a"
    and "qw q * qw q - qx q * qx q - qy q * qy q + qz q * qz q = cos b * cos a"
    and "2 * (qx q * qz q + qw q * qy q) = sin b"
    and "2 * (qw q * qz q - qx q * qy q) = cos b * sin c"
    and "qw q * qw q + qx q * qx q - qy q * qy q - qz q * qz q = cos b * cos c"
proof -
  let ?sa = "sin (a/2)" and ?ca = "cos (a/2)" and ?sb = "sin (b/2)" and ?cb = "cos (b/2)"
    and ?sc = "sin (c/2)" and ?cc = "cos (c/2)"
  have ua: "?sa * ?sa + ?ca * ?ca = 1" and ub: "?sb * ?sb + ?cb * ?cb = 1"
    and uc: "?sc * ?sc + ?cc * ?cc = 1" by simp_all
  have qx: "qx q = ?sa * ?cb * ?cc + ?ca * ?sb * ?sc"
    and qy: "qy q = ?ca * ?sb * ?cc - ?sa * ?cb * ?sc"
    and qz: "qz q = ?ca * ?cb * ?sc + ?sa * ?sb * ?cc"
    and qw: "qw q = ?ca * ?cb * ?cc - ?sa * ?sb * ?sc"
    unfolding q_def quat_from_euler_xyz_product
    by (simp_all add: quat_mul_def quat_from_xyzw_def quat_from_rotation_x_def
        quat_from_rotation_y_def quat_from_rotation_z_def Let_def algebra_simps)
  show "2 * (qw q * qx q - qy q * qz q) = cos b * sin a"
    unfolding qx qy qz qw sin_cos_half [of a] sin_cos_half [of b] using ua ub uc by algebra
  show "qw q * qw q - qx q * qx q - qy q * qy q + qz q * qz q = cos b * cos a"
    unfolding qx qy qz qw sin_cos_half [of a] sin_cos_half [of b] using ua ub uc by algebra
  show "2 * (qx q * qz q + qw q * qy q) = sin b"
    unfolding qx qy qz qw sin_cos_half [of b] using ua ub uc by algebra
  show "2 * (qw q * qz q - qx q * qy q) = cos b * sin c"
    unfolding qx qy qz qw sin_cos_half [of c] sin_cos_half [of b] using ua ub uc by algebra
  show "qw q * qw q + qx q * qx q - qy q * qy q - qz q * qz q = cos b * cos c"
    unfolding qx qy qz qw sin_cos_half [of c] sin_cos_half [of b] using ua ub uc by algebra
qed

text \<open>
  \<open>to_euler\<close> inverts \<open>from_euler\<close> on the principal range: first and third angle in
  \<open>(-pi, pi]\<close>, second strictly inside \<open>(-pi/2, pi/2)\<close> (at \<open>\<plusminus>pi/2\<close> the
  first and third angle are not determined: gimbal lock).
\<close>

lemma quat_to_euler_xyz_from_euler:
  assumes a: "- pi < a" "a \<le> pi" and b: "- (pi/2) < b" "b < pi/2" and c: "- pi < c" "c \<le> pi"
  shows "quat_to_euler_xyz (quat_from_euler_xyz a b c) = (a, b, c)"
proof -
  have cb: "0 < cos b" using b by (rule cos_gt_zero_pi)
  have "arcsin (sin b) = b" using b by (intro arcsin_sin) simp_all
  moreover have "atan2 (cos b * sin a) (cos b * cos a) = a" using cb a by (rule atan2_polar)
  moreover have "atan2 (cos b * sin c) (cos b * cos c) = c" using cb c by (rule atan2_polar)
  ultimately show ?thesis
    unfolding quat_to_euler_xyz_def Let_def euler_xyz_components arc_clamp_sin by simp
qed

text \<open>
  Whatever the quaternion, \<open>to_euler\<close> returns angles in the principal ranges: the
  \<open>atan2\<close>s in \<open>(-pi, pi]\<close>, the clamped \<open>asin\<close> in \<open>[-pi/2, pi/2]\<close>.
\<close>

lemma quat_to_euler_xyz_range:
  assumes "quat_to_euler_xyz q = (a, b, c)"
  shows "- pi < a \<and> a \<le> pi \<and> - (pi/2) \<le> b \<and> b \<le> pi/2 \<and> - pi < c \<and> c \<le> pi"
  using assms atan2_range arcsin_bounded
  by (auto simp: quat_to_euler_xyz_def Let_def)

text \<open>
  At a second angle of \<open>pi/2\<close> (gimbal lock) both \<open>atan2\<close>s of \<open>to_euler\<close>
  see \<open>(0, 0)\<close>: the first and third angle come back as \<open>0\<close>, whatever they were.
\<close>

lemma quat_to_euler_xyz_gimbal_lock:
  "quat_to_euler_xyz (quat_from_euler_xyz a (pi/2) c) = (0, pi/2, 0)"
proof -
  have "arcsin (min (max (sin (pi/2)) (- 1)) 1) = pi/2" by simp
  then show ?thesis
    unfolding quat_to_euler_xyz_def Let_def euler_xyz_components arc_clamp_sin
    by (simp add: atan2_def)
qed

section \<open>Lemmas: decomposing a matrix\<close>

text \<open>
  The branches of \<open>from_rotation_axes\<close> on the diagonal of a unit quaternion's
  rotation matrix: each radicand is four times the square of one component, and the
  branch taken makes that component non-zero.
\<close>

lemma rotation_axes_branches:
  fixes x y z w :: real
  assumes u: "x * x + y * y + z * z + w * w = 1"
  defines "m00 \<equiv> 1 - (y * (y + y) + z * (z + z))" and "m11 \<equiv> 1 - (x * (x + x) + z * (z + z))"
    and "m22 \<equiv> 1 - (x * (x + x) + y * (y + y))"
  shows "m22 \<le> 0 \<Longrightarrow> m11 - m00 \<le> 0 \<Longrightarrow> 1 - m22 - (m11 - m00) = 4 * (x * x) \<and> x \<noteq> 0"
    and "m22 \<le> 0 \<Longrightarrow> \<not> m11 - m00 \<le> 0 \<Longrightarrow> 1 - m22 + (m11 - m00) = 4 * (y * y) \<and> y \<noteq> 0"
    and "\<not> m22 \<le> 0 \<Longrightarrow> m11 + m00 \<le> 0 \<Longrightarrow> 1 + m22 - (m11 + m00) = 4 * (z * z) \<and> z \<noteq> 0"
    and "\<not> m22 \<le> 0 \<Longrightarrow> \<not> m11 + m00 \<le> 0 \<Longrightarrow> 1 + m22 + (m11 + m00) = 4 * (w * w) \<and> w \<noteq> 0"
proof -
  have fx: "1 - m22 - (m11 - m00) = 4 * (x * x)" and fy: "1 - m22 + (m11 - m00) = 4 * (y * y)"
    and fz: "1 + m22 - (m11 + m00) = 4 * (z * z)"
    unfolding m00_def m11_def m22_def by algebra+
  have fw: "1 + m22 + (m11 + m00) = 4 * (w * w)" using u unfolding m00_def m11_def m22_def by algebra
  show "m22 \<le> 0 \<Longrightarrow> m11 - m00 \<le> 0 \<Longrightarrow> 1 - m22 - (m11 - m00) = 4 * (x * x) \<and> x \<noteq> 0"
  proof
    assume "m22 \<le> 0" "m11 - m00 \<le> 0"
    then have "1 \<le> 2 * (x * x) + 2 * (y * y)" "y * y \<le> x * x"
      unfolding m00_def m11_def m22_def by (simp_all add: algebra_simps)
    then show "x \<noteq> 0" by auto
  qed (rule fx)
  show "m22 \<le> 0 \<Longrightarrow> \<not> m11 - m00 \<le> 0 \<Longrightarrow> 1 - m22 + (m11 - m00) = 4 * (y * y) \<and> y \<noteq> 0"
  proof
    assume "m22 \<le> 0" "\<not> m11 - m00 \<le> 0"
    then have "1 \<le> 2 * (x * x) + 2 * (y * y)" "x * x < y * y"
      unfolding m00_def m11_def m22_def by (simp_all add: algebra_simps)
    then show "y \<noteq> 0" by auto
  qed (rule fy)
  show "\<not> m22 \<le> 0 \<Longrightarrow> m11 + m00 \<le> 0 \<Longrightarrow> 1 + m22 - (m11 + m00) = 4 * (z * z) \<and> z \<noteq> 0"
  proof
    assume "\<not> m22 \<le> 0" "m11 + m00 \<le> 0"
    then have "2 * (x * x) + 2 * (y * y) < 1" "2 \<le> 2 * (x * x) + 2 * (y * y) + 4 * (z * z)"
      unfolding m00_def m11_def m22_def by (simp_all add: algebra_simps)
    then show "z \<noteq> 0" by auto
  qed (rule fz)
  show "\<not> m22 \<le> 0 \<Longrightarrow> \<not> m11 + m00 \<le> 0 \<Longrightarrow> 1 + m22 + (m11 + m00) = 4 * (w * w) \<and> w \<noteq> 0"
  proof
    assume "\<not> m22 \<le> 0" "\<not> m11 + m00 \<le> 0"
    then have "0 < 1 + m22 + (m11 + m00)" by simp
    then show "w \<noteq> 0" unfolding fw by auto
  qed (rule fw)
qed

text \<open>
  On the columns of the rotation matrix of a unit quaternion \<open>q\<close> (entries written as
  \<open>quat_to_axes\<close> computes them), each of the four branches of
  \<open>from_rotation_axes\<close> returns \<open>q\<close> or \<open>-q\<close>: the branch taken guarantees that
  the component it divides by is not zero.
\<close>

lemma quat_from_rotation_axes_sign:
  fixes x y z w :: real
  assumes u: "x * x + y * y + z * z + w * w = 1"
  defines "m00 \<equiv> 1 - (y * (y + y) + z * (z + z))" and "m01 \<equiv> x * (y + y) + w * (z + z)"
    and "m02 \<equiv> x * (z + z) - w * (y + y)" and "m10 \<equiv> x * (y + y) - w * (z + z)"
    and "m11 \<equiv> 1 - (x * (x + x) + z * (z + z))" and "m12 \<equiv> y * (z + z) + w * (x + x)"
    and "m20 \<equiv> x * (z + z) + w * (y + y)" and "m21 \<equiv> y * (z + z) - w * (x + x)"
    and "m22 \<equiv> 1 - (x * (x + x) + y * (y + y))"
  shows "\<exists>\<sigma>. (\<sigma> = 1 \<or> \<sigma> = -1) \<and>
    quat_from_rotation_axes (vec3_new m00 m01 m02) (vec3_new m10 m11 m12) (vec3_new m20 m21 m22)
      = quat_from_xyzw (\<sigma> * x) (\<sigma> * y) (\<sigma> * z) (\<sigma> * w)"
proof -
  have axes: "quat_from_rotation_axes (vec3_new m00 m01 m02) (vec3_new m10 m11 m12) (vec3_new m20 m21 m22)
    = (if m22 \<le> 0 then
         (if m11 - m00 \<le> 0 then
            (let f = 1 - m22 - (m11 - m00); i = 0.5 / sqrt f
             in quat_from_xyzw (f * i) ((m01 + m10) * i) ((m02 + m20) * i) ((m12 - m21) * i))
          else
            (let f = 1 - m22 + (m11 - m00); i = 0.5 / sqrt f
             in quat_from_xyzw ((m01 + m10) * i) (f * i) ((m12 + m21) * i) ((m20 - m02) * i)))
       else
         (if m11 + m00 \<le> 0 then
            (let f = 1 + m22 - (m11 + m00); i = 0.5 / sqrt f
             in quat_from_xyzw ((m02 + m20) * i) ((m12 + m21) * i) (f * i) ((m01 - m10) * i))
          else
            (let f = 1 + m22 + (m11 + m00); i = 0.5 / sqrt f
             in quat_from_xyzw ((m12 - m21) * i) ((m20 - m02) * i) ((m01 - m10) * i) (f * i))))"
    unfolding quat_from_rotation_axes_def vec3_new_def Let_def by simp
  have sgn1: "sgn c = 1 \<or> sgn c = -1" if "(c::real) \<noteq> 0" for c
    using that by (simp add: sgn_real_def)
  consider (X) "m22 \<le> 0" "m11 - m00 \<le> 0" | (Y) "m22 \<le> 0" "\<not> m11 - m00 \<le> 0"
    | (Z) "\<not> m22 \<le> 0" "m11 + m00 \<le> 0" | (W) "\<not> m22 \<le> 0" "\<not> m11 + m00 \<le> 0"
    by blast
  then show ?thesis
  proof cases
    case X
    have f: "1 - m22 - (m11 - m00) = 4 * (x * x)" and c: "x \<noteq> 0"
      using rotation_axes_branches(1) [OF u] X unfolding m00_def m11_def m22_def by blast+
    have n: "m01 + m10 = 4 * x * y" "m02 + m20 = 4 * x * z" "m12 - m21 = 4 * x * w"
      unfolding m01_def m10_def m02_def m20_def m12_def m21_def by algebra+
    have "quat_from_rotation_axes (vec3_new m00 m01 m02) (vec3_new m10 m11 m12) (vec3_new m20 m21 m22)
        = quat_from_xyzw (sgn x * x) (sgn x * y) (sgn x * z) (sgn x * w)"
      unfolding axes using X
      by (simp only: if_True f n Let_def half_div_sqrt_sq [OF c] sgn_cancel [OF c])
    with sgn1 [OF c] show ?thesis by blast
  next
    case Y
    have f: "1 - m22 + (m11 - m00) = 4 * (y * y)" and c: "y \<noteq> 0"
      using rotation_axes_branches(2) [OF u] Y unfolding m00_def m11_def m22_def by blast+
    have n: "m01 + m10 = 4 * y * x" "m12 + m21 = 4 * y * z" "m20 - m02 = 4 * y * w"
      unfolding m01_def m10_def m02_def m20_def m12_def m21_def by algebra+
    have "quat_from_rotation_axes (vec3_new m00 m01 m02) (vec3_new m10 m11 m12) (vec3_new m20 m21 m22)
        = quat_from_xyzw (sgn y * x) (sgn y * y) (sgn y * z) (sgn y * w)"
      unfolding axes using Y
      by (simp only: if_True if_False f n Let_def half_div_sqrt_sq [OF c] sgn_cancel [OF c])
    with sgn1 [OF c] show ?thesis by blast
  next
    case Z
    have f: "1 + m22 - (m11 + m00) = 4 * (z * z)" and c: "z \<noteq> 0"
      using rotation_axes_branches(3) [OF u] Z unfolding m00_def m11_def m22_def by blast+
    have n: "m02 + m20 = 4 * z * x" "m12 + m21 = 4 * z * y" "m01 - m10 = 4 * z * w"
      unfolding m01_def m10_def m02_def m20_def m12_def m21_def by algebra+
    have "quat_from_rotation_axes (vec3_new m00 m01 m02) (vec3_new m10 m11 m12) (vec3_new m20 m21 m22)
        = quat_from_xyzw (sgn z * x) (sgn z * y) (sgn z * z) (sgn z * w)"
      unfolding axes using Z
      by (simp only: if_True if_False f n Let_def half_div_sqrt_sq [OF c] sgn_cancel [OF c])
    with sgn1 [OF c] show ?thesis by blast
  next
    case W
    have f: "1 + m22 + (m11 + m00) = 4 * (w * w)" and c: "w \<noteq> 0"
      using rotation_axes_branches(4) [OF u] W unfolding m00_def m11_def m22_def by blast+
    have n: "m12 - m21 = 4 * w * x" "m20 - m02 = 4 * w * y" "m01 - m10 = 4 * w * z"
      unfolding m01_def m10_def m02_def m20_def m12_def m21_def by algebra+
    have "quat_from_rotation_axes (vec3_new m00 m01 m02) (vec3_new m10 m11 m12) (vec3_new m20 m21 m22)
        = quat_from_xyzw (sgn w * x) (sgn w * y) (sgn w * z) (sgn w * w)"
      unfolding axes using W
      by (simp only: if_True if_False f n Let_def half_div_sqrt_sq [OF c] sgn_cancel [OF c])
    with sgn1 [OF c] show ?thesis by blast
  qed
qed

lemma vec4_xyz_mul_recip: "(s::real) \<noteq> 0 \<Longrightarrow> vec4_xyz (vec4_mul (vec4_mul v s) (1 / s)) = vec4_xyz v"
  by (simp add: vec4_xyz_def vec4_mul_def)

lemma quat_to_axes_xyz:
  "vec4_xyz (fst (quat_to_axes q)) =
     vec3_new (1 - (qy q * (qy q + qy q) + qz q * (qz q + qz q))) (qx q * (qy q + qy q) + qw q * (qz q + qz q))
       (qx q * (qz q + qz q) - qw q * (qy q + qy q))"
  "vec4_xyz (fst (snd (quat_to_axes q))) =
     vec3_new (qx q * (qy q + qy q) - qw q * (qz q + qz q)) (1 - (qx q * (qx q + qx q) + qz q * (qz q + qz q)))
       (qy q * (qz q + qz q) + qw q * (qx q + qx q))"
  "vec4_xyz (snd (snd (quat_to_axes q))) =
     vec3_new (qx q * (qz q + qz q) + qw q * (qy q + qy q)) (qy q * (qz q + qz q) - qw q * (qx q + qx q))
       (1 - (qx q * (qx q + qx q) + qy q * (qy q + qy q)))"
  by (simp_all add: quat_to_axes_def Let_def vec4_xyz_def vec3_new_def)

lemma mat4_to_scale_rotation_translation_rotation:
  "fst (snd (mat4_to_scale_rotation_translation m)) =
    (let s = fst (mat4_to_scale_rotation_translation m)
     in quat_from_rotation_axes (vec4_xyz (vec4_mul (x_axis m) (1 / x3 s)))
          (vec4_xyz (vec4_mul (y_axis m) (1 / y3 s))) (vec4_xyz (vec4_mul (z_axis m) (1 / z3 s))))"
  by (simp add: mat4_to_scale_rotation_translation_def Let_def vec3_new_def)

text \<open>
  So glam's decomposition of a matrix built from a unit quaternion and a positive scale
  returns that quaternion up to sign.
\<close>

lemma to_scale_rotation_translation_rotation:
  assumes u: "quat_unit q" and s: "0 < x3 s" "0 < y3 s" "0 < z3 s"
  shows "\<exists>\<sigma>. (\<sigma> = 1 \<or> \<sigma> = -1) \<and>
    fst (snd (mat4_to_scale_rotation_translation (mat4_from_scale_rotation_translation s q t)))
      = quat_from_xyzw (\<sigma> * qx q) (\<sigma> * qy q) (\<sigma> * qz q) (\<sigma> * qw q)"
proof -
  let ?m = "mat4_from_scale_rotation_translation s q t"
  have n: "qx q * qx q + qy q * qy q + qz q * qz q + qw q * qw q = 1"
    using u by (simp add: quat_unit_def quat_dot_def)
  have "0 < x3 s * y3 s * z3 s" using s by simp
  then have sg: "f32_signum (x3 s * y3 s * z3 s) = 1" by (simp add: f32_signum_def)
  have sc: "fst (mat4_to_scale_rotation_translation ?m) = s"
    using to_scale_rotation_translation_from(1) [OF u, of s t] s by (simp add: sg vec3_new_def)
  have r: "fst (snd (mat4_to_scale_rotation_translation ?m)) =
    quat_from_rotation_axes (vec4_xyz (fst (quat_to_axes q))) (vec4_xyz (fst (snd (quat_to_axes q))))
      (vec4_xyz (snd (snd (quat_to_axes q))))"
    using s unfolding mat4_to_scale_rotation_translation_rotation sc Let_def
    by (simp add: mat4_from_scale_rotation_translation_axes vec4_xyz_mul_recip)
  show ?thesis unfolding r quat_to_axes_xyz by (rule quat_from_rotation_axes_sign [OF n])
qed

text \<open>\<open>q\<close> and \<open>-q\<close> are the same rotation.\<close>

lemma quat_rotate_sign:
  "\<sigma> = 1 \<or> \<sigma> = -1 \<Longrightarrow>
     quat_rotate (quat_from_xyzw (\<sigma> * qx q) (\<sigma> * qy q) (\<sigma> * qz q) (\<sigma> * qw q)) v = quat_rotate q v"
  by (auto simp: quat_rotate_def quat_pure_def quat_mul_def quat_conjugate_def quat_from_xyzw_def
      Let_def algebra_simps)

section \<open>Lemmas: reading the Euler angles back\<close>

text \<open>
  The rotation of a vector by \<open>q\<close>, entry by entry (homogeneous form, for any \<open>q\<close>).
\<close>

lemma quat_rotate_explicit:
  "quat_rotate q v = (let x = qx q; y = qy q; z = qz q; w = qw q in
     vec3_new ((w * w + x * x - y * y - z * z) * x3 v + 2 * (x * y - w * z) * y3 v + 2 * (x * z + w * y) * z3 v)
              (2 * (x * y + w * z) * x3 v + (w * w - x * x + y * y - z * z) * y3 v + 2 * (y * z - w * x) * z3 v)
              (2 * (x * z - w * y) * x3 v + 2 * (y * z + w * x) * y3 v + (w * w - x * x - y * y + z * z) * z3 v))"
  unfolding quat_rotate_def quat_pure_def quat_mul_def quat_conjugate_def quat_from_xyzw_def vec3_new_def Let_def
  by (simp add: algebra_simps)

text \<open>
  The polynomial core of the inverse of \<open>to_euler\<close>: with \<open>r = cos b\<close> and the
  cosines and sines of the outer angles given as \<open>atan2\<close> reads them (times \<open>r\<close>),
  the rotation \<open>Rx a (Ry b (Rz c v))\<close> is the rotation by \<open>q\<close>, one coordinate
  per identity.
\<close>

lemma euler_rotation_poly:
  fixes x y z w r ca sa cc sc vx vy vz :: real
  assumes n: "x * x + y * y + z * z + w * w = 1"
    and r: "r \<noteq> 0" and r2: "r * r = 1 - (2 * (x * z + w * y)) * (2 * (x * z + w * y))"
    and a1: "ca * r = w * w - x * x - y * y + z * z" and a2: "sa * r = 2 * (w * x - y * z)"
    and c1: "cc * r = w * w + x * x - y * y - z * z" and c2: "sc * r = 2 * (w * z - x * y)"
  shows "r * (cc * vx - sc * vy) + 2 * (x * z + w * y) * vz =
         (w * w + x * x - y * y - z * z) * vx + 2 * (x * y - w * z) * vy + 2 * (x * z + w * y) * vz"
    and "ca * (sc * vx + cc * vy) - sa * (r * vz - 2 * (x * z + w * y) * (cc * vx - sc * vy)) =
         2 * (x * y + w * z) * vx + (w * w - x * x + y * y - z * z) * vy + 2 * (y * z - w * x) * vz"
    and "sa * (sc * vx + cc * vy) + ca * (r * vz - 2 * (x * z + w * y) * (cc * vx - sc * vy)) =
         2 * (x * z - w * y) * vx + 2 * (y * z + w * x) * vy + (w * w - x * x - y * y + z * z) * vz"
  using assms by algebra+

text \<open>
  Away from gimbal lock (\<open>|2(xz + wy)| < 1\<close>), \<open>from_euler\<close> of the angles
  \<open>to_euler\<close> reads from a unit quaternion rotates every vector as that quaternion does.
\<close>

lemma quat_rotate_from_to_euler_xyz:
  fixes q :: quat
  defines "s \<equiv> 2 * (qx q * qz q + qw q * qy q)"
  assumes u: "quat_unit q" and s1: "- 1 < s" "s < 1"
  shows "quat_rotate (quat_from_euler_xyz (fst (quat_to_euler_xyz q)) (fst (snd (quat_to_euler_xyz q)))
           (snd (snd (quat_to_euler_xyz q)))) v = quat_rotate q v"
proof -
  let ?x = "qx q" and ?y = "qy q" and ?z = "qz q" and ?w = "qw q"
  let ?Ya = "2 * (?w * ?x - ?y * ?z)" and ?Xa = "?w * ?w - ?x * ?x - ?y * ?y + ?z * ?z"
  let ?Yc = "2 * (?w * ?z - ?x * ?y)" and ?Xc = "?w * ?w + ?x * ?x - ?y * ?y - ?z * ?z"
  have n: "?x * ?x + ?y * ?y + ?z * ?z + ?w * ?w = 1"
    using u by (simp add: quat_unit_def quat_dot_def)
  have na: "?Xa * ?Xa + ?Ya * ?Ya = 1 - s * s" unfolding s_def using n by algebra
  have nc: "?Xc * ?Xc + ?Yc * ?Yc = 1 - s * s" unfolding s_def using n by algebra
  have "0 < (1 - s) * (1 + s)" using s1 by simp
  then have s2: "0 < 1 - s * s" by (simp add: algebra_simps)
  define r where "r = sqrt (1 - s * s)"
  have r0: "r \<noteq> 0" using s2 by (simp add: r_def)
  have r2: "r * r = 1 - s * s" using s2 by (simp add: r_def)
  have ra: "sqrt (?Xa\<^sup>2 + ?Ya\<^sup>2) = r" using na by (simp add: r_def power2_eq_square)
  have rc: "sqrt (?Xc\<^sup>2 + ?Yc\<^sup>2) = r" using nc by (simp add: r_def power2_eq_square)
  have "?Xa \<noteq> 0 \<or> ?Ya \<noteq> 0" using na s2 by auto
  then have a: "cos (atan2 ?Ya ?Xa) * r = ?Xa" "sin (atan2 ?Ya ?Xa) * r = ?Ya"
    using cos_sin_atan2 [of ?Xa ?Ya] ra r0 by simp_all
  have "?Xc \<noteq> 0 \<or> ?Yc \<noteq> 0" using nc s2 by auto
  then have c: "cos (atan2 ?Yc ?Xc) * r = ?Xc" "sin (atan2 ?Yc ?Xc) * r = ?Yc"
    using cos_sin_atan2 [of ?Xc ?Yc] rc r0 by simp_all
  have b: "sin (arcsin s) = s" "cos (arcsin s) = r"
    using s1 by (simp_all add: cos_arcsin r_def power2_eq_square)
  have e: "quat_to_euler_xyz q = (atan2 ?Ya ?Xa, arcsin s, atan2 ?Yc ?Xc)"
    using s1 by (simp add: quat_to_euler_xyz_def Let_def s_def)
  have p: "?x * ?x + ?y * ?y + ?z * ?z + ?w * ?w = 1" "r \<noteq> 0"
    "r * r = 1 - (2 * (?x * ?z + ?w * ?y)) * (2 * (?x * ?z + ?w * ?y))"
    using n r0 r2 by (simp_all add: s_def)
  note P = euler_rotation_poly [OF p a c, of "x3 v" "y3 v" "z3 v"]
  show ?thesis
    unfolding e fst_conv snd_conv quat_rotate_from_euler_xyz
    unfolding rotate_x_def rotate_y_def rotate_z_def b quat_rotate_explicit Let_def
    using P by (simp add: vec3_new_def s_def)
qed

text \<open>
  The columns \<open>quat_to_axes\<close> builds from a unit quaternion are the rotated basis
  vectors; two unit quaternions that rotate every vector alike are equal up to sign; and
  the matrix does not see that sign.
\<close>

lemma quat_to_axes_rotate:
  assumes u: "quat_unit q"
  shows "vec4_xyz (fst (quat_to_axes q)) = quat_rotate q (vec3_new 1 0 0)"
    and "vec4_xyz (fst (snd (quat_to_axes q))) = quat_rotate q (vec3_new 0 1 0)"
    and "vec4_xyz (snd (snd (quat_to_axes q))) = quat_rotate q (vec3_new 0 0 1)"
proof -
  have n: "qx q * qx q + qy q * qy q + qz q * qz q + qw q * qw q = 1"
    using u by (simp add: quat_unit_def quat_dot_def)
  have d: "1 - (qy q * (qy q + qy q) + qz q * (qz q + qz q)) = qw q * qw q + qx q * qx q - qy q * qy q - qz q * qz q"
    "1 - (qx q * (qx q + qx q) + qz q * (qz q + qz q)) = qw q * qw q - qx q * qx q + qy q * qy q - qz q * qz q"
    "1 - (qx q * (qx q + qx q) + qy q * (qy q + qy q)) = qw q * qw q - qx q * qx q - qy q * qy q + qz q * qz q"
    using n by algebra+
  show "vec4_xyz (fst (quat_to_axes q)) = quat_rotate q (vec3_new 1 0 0)"
    "vec4_xyz (fst (snd (quat_to_axes q))) = quat_rotate q (vec3_new 0 1 0)"
    "vec4_xyz (snd (snd (quat_to_axes q))) = quat_rotate q (vec3_new 0 0 1)"
    unfolding quat_to_axes_xyz quat_rotate_explicit d Let_def
    by (simp_all add: vec3_new_def algebra_simps)
qed

lemma quat_rotate_eq_sign:
  assumes u1: "quat_unit q1" and u2: "quat_unit q2"
    and r: "\<And>v. quat_rotate q1 v = quat_rotate q2 v"
  shows "\<exists>\<sigma>. (\<sigma> = 1 \<or> \<sigma> = -1) \<and>
           q1 = quat_from_xyzw (\<sigma> * qx q2) (\<sigma> * qy q2) (\<sigma> * qz q2) (\<sigma> * qw q2)"
proof -
  have n: "qx q * qx q + qy q * qy q + qz q * qz q + qw q * qw q = 1" if "quat_unit q" for q
    using that by (simp add: quat_unit_def quat_dot_def)
  define A where "A q = quat_from_rotation_axes (vec4_xyz (fst (quat_to_axes q)))
    (vec4_xyz (fst (snd (quat_to_axes q)))) (vec4_xyz (snd (snd (quat_to_axes q))))" for q
  have eq: "A q1 = A q2" unfolding A_def quat_to_axes_rotate [OF u1] quat_to_axes_rotate [OF u2] r ..
  obtain \<sigma>1 where s1: "\<sigma>1 = 1 \<or> \<sigma>1 = -1"
    and a1: "A q1 = quat_from_xyzw (\<sigma>1 * qx q1) (\<sigma>1 * qy q1) (\<sigma>1 * qz q1) (\<sigma>1 * qw q1)"
    using quat_from_rotation_axes_sign [OF n [OF u1]] unfolding A_def quat_to_axes_xyz by blast
  obtain \<sigma>2 where s2: "\<sigma>2 = 1 \<or> \<sigma>2 = -1"
    and a2: "A q2 = quat_from_xyzw (\<sigma>2 * qx q2) (\<sigma>2 * qy q2) (\<sigma>2 * qz q2) (\<sigma>2 * qw q2)"
    using quat_from_rotation_axes_sign [OF n [OF u2]] unfolding A_def quat_to_axes_xyz by blast
  have "q1 = quat_from_xyzw (\<sigma>1 * \<sigma>2 * qx q2) (\<sigma>1 * \<sigma>2 * qy q2) (\<sigma>1 * \<sigma>2 * qz q2) (\<sigma>1 * \<sigma>2 * qw q2)"
    using eq s1 s2 unfolding a1 a2 by (cases q1) (auto simp: quat_from_xyzw_def)
  moreover have "\<sigma>1 * \<sigma>2 = 1 \<or> \<sigma>1 * \<sigma>2 = -1" using s1 s2 by auto
  ultimately show ?thesis by blast
qed

lemma quat_to_axes_sign:
  "\<sigma> = 1 \<or> \<sigma> = -1 \<Longrightarrow>
     quat_to_axes (quat_from_xyzw (\<sigma> * qx q) (\<sigma> * qy q) (\<sigma> * qz q) (\<sigma> * qw q)) = quat_to_axes q"
  by (auto simp: quat_to_axes_def quat_from_xyzw_def Let_def)

lemma mat4_from_scale_rotation_translation_sign:
  "\<sigma> = 1 \<or> \<sigma> = -1 \<Longrightarrow>
     mat4_from_scale_rotation_translation s (quat_from_xyzw (\<sigma> * qx q) (\<sigma> * qy q) (\<sigma> * qz q) (\<sigma> * qw q)) t =
     mat4_from_scale_rotation_translation s q t"
  by (simp add: mat4_from_scale_rotation_translation_def quat_to_axes_sign)

section \<open>Lemmas: when the decomposition stays finite\<close>

text \<open>
  On the axes of a unit quaternion's rotation matrix, each column possibly negated so
  that the three signs multiply to one (as \<open>to_scale_rotation_translation\<close> leaves
  them after dividing by a scale whose first component carries the determinant's sign),
  the radicand of the branch taken is positive: the axes are those of \<open>q\<close>,
  \<open>q i\<close>, \<open>q j\<close> or \<open>q k\<close>, and the radicand reads only the diagonal.
\<close>

lemma from_rotation_axes_radicand_pos:
  fixes x y z w :: real
  assumes u: "x * x + y * y + z * z + w * w = 1"
  shows "0 < from_rotation_axes_radicand
    (vec3_new (1 - (y * (y + y) + z * (z + z))) m01 m02)
    (vec3_new m10 (1 - (x * (x + x) + z * (z + z))) m12)
    (vec3_new m20 m21 (1 - (x * (x + x) + y * (y + y))))"
  using rotation_axes_branches [OF u]
  unfolding from_rotation_axes_radicand_def vec3_new_def Let_def
  by (simp only: vec3.select_convs) (auto split: if_split)

lemma from_rotation_axes_radicand_diag_pos:
  fixes x y z w :: real
  assumes u: "x * x + y * y + z * z + w * w = 1"
    and d: "x3 xa = 1 - (y * (y + y) + z * (z + z))" "y3 ya = 1 - (x * (x + x) + z * (z + z))"
      "z3 za = 1 - (x * (x + x) + y * (y + y))"
  shows "0 < from_rotation_axes_radicand xa ya za"
proof -
  have "from_rotation_axes_radicand xa ya za = from_rotation_axes_radicand
    (vec3_new (x3 xa) (y3 xa) (z3 xa)) (vec3_new (x3 ya) (y3 ya) (z3 ya)) (vec3_new (x3 za) (y3 za) (z3 za))"
    by (simp add: from_rotation_axes_radicand_def vec3_new_def)
  then show ?thesis unfolding d using from_rotation_axes_radicand_pos [OF u] by simp
qed

lemma from_rotation_axes_radicand_signed_pos:
  fixes x y z w a b :: real
  assumes u: "x * x + y * y + z * z + w * w = 1" and a: "a = 1 \<or> a = -1" and b: "b = 1 \<or> b = -1"
    and d: "x3 xa = a * b * (1 - (y * (y + y) + z * (z + z)))" "y3 ya = a * (1 - (x * (x + x) + z * (z + z)))"
      "z3 za = b * (1 - (x * (x + x) + y * (y + y)))"
  shows "0 < from_rotation_axes_radicand xa ya za"
proof -
  consider "a = 1" "b = 1" | "a = -1" "b = -1" | "a = 1" "b = -1" | "a = -1" "b = 1"
    using a b by blast
  then show ?thesis
  proof cases
    case 1
    then show ?thesis using from_rotation_axes_radicand_diag_pos [OF u] d by simp
  next
    case 2
    have u': "w * w + z * z + (- y) * (- y) + (- x) * (- x) = 1" using u by algebra
    show ?thesis
      by (rule from_rotation_axes_radicand_diag_pos [OF u']) (use d 2 u in algebra)+
  next
    case 3
    have u': "(- z) * (- z) + w * w + x * x + (- y) * (- y) = 1" using u by algebra
    show ?thesis
      by (rule from_rotation_axes_radicand_diag_pos [OF u']) (use d 3 u in algebra)+
  next
    case 4
    have u': "y * y + (- x) * (- x) + w * w + (- z) * (- z) = 1" using u by algebra
    show ?thesis
      by (rule from_rotation_axes_radicand_diag_pos [OF u']) (use d 4 u in algebra)+
  qed
qed

text \<open>
  So glam decomposes the matrix of a unit quaternion and a scale without producing a
  NaN exactly when no scale component is zero.
\<close>

lemma srt_finite_from_scale_rotation_translation:
  assumes u: "quat_unit q"
  shows "mat4_srt_finite (mat4_from_scale_rotation_translation s q t) \<longleftrightarrow>
           x3 s \<noteq> 0 \<and> y3 s \<noteq> 0 \<and> z3 s \<noteq> 0"
proof -
  let ?m = "mat4_from_scale_rotation_translation s q t"
  let ?\<sigma> = "f32_signum (x3 s * y3 s * z3 s)"
  have sg: "?\<sigma> \<noteq> 0" by (simp add: f32_signum_def)
  have sc: "fst (mat4_to_scale_rotation_translation ?m) = vec3_new (\<bar>x3 s\<bar> * ?\<sigma>) \<bar>y3 s\<bar> \<bar>z3 s\<bar>"
    by (rule to_scale_rotation_translation_from(1) [OF u])
  have n: "qx q * qx q + qy q * qy q + qz q * qz q + qw q * qw q = 1"
    using u by (simp add: quat_unit_def quat_dot_def)
  show ?thesis
  proof
    assume "mat4_srt_finite ?m"
    then show "x3 s \<noteq> 0 \<and> y3 s \<noteq> 0 \<and> z3 s \<noteq> 0"
      by (simp add: mat4_srt_finite_def sc vec3_new_def)
  next
    assume nz: "x3 s \<noteq> 0 \<and> y3 s \<noteq> 0 \<and> z3 s \<noteq> 0"
    have "0 < from_rotation_axes_radicand
        (vec4_xyz (vec4_mul (x_axis ?m) (1 / (\<bar>x3 s\<bar> * ?\<sigma>))))
        (vec4_xyz (vec4_mul (y_axis ?m) (1 / \<bar>y3 s\<bar>))) (vec4_xyz (vec4_mul (z_axis ?m) (1 / \<bar>z3 s\<bar>)))"
    proof (rule from_rotation_axes_radicand_signed_pos [OF n sgn_pm1 sgn_pm1])
      show "y3 s \<noteq> 0" "z3 s \<noteq> 0" using nz by simp_all
      have f: "x3 s * (1 / (\<bar>x3 s\<bar> * ?\<sigma>)) = sgn (y3 s) * sgn (z3 s)"
        using nz by (intro scale_sign_factor) simp_all
      show "x3 (vec4_xyz (vec4_mul (x_axis ?m) (1 / (\<bar>x3 s\<bar> * ?\<sigma>)))) =
          sgn (y3 s) * sgn (z3 s) * (1 - (qy q * (qy q + qy q) + qz q * (qz q + qz q)))"
        unfolding f [symmetric]
        by (simp add: mat4_from_scale_rotation_translation_axes quat_to_axes_def Let_def vec4_mul_def
            vec4_xyz_def vec3_new_def)
      show "y3 (vec4_xyz (vec4_mul (y_axis ?m) (1 / \<bar>y3 s\<bar>))) =
          sgn (y3 s) * (1 - (qx q * (qx q + qx q) + qz q * (qz q + qz q)))"
        unfolding sgn_abs_recip [symmetric]
        by (simp add: mat4_from_scale_rotation_translation_axes quat_to_axes_def Let_def vec4_mul_def
            vec4_xyz_def vec3_new_def)
      show "z3 (vec4_xyz (vec4_mul (z_axis ?m) (1 / \<bar>z3 s\<bar>))) =
          sgn (z3 s) * (1 - (qx q * (qx q + qx q) + qy q * (qy q + qy q)))"
        unfolding sgn_abs_recip [symmetric]
        by (simp add: mat4_from_scale_rotation_translation_axes quat_to_axes_def Let_def vec4_mul_def
            vec4_xyz_def vec3_new_def)
    qed
    then show "mat4_srt_finite ?m"
      using nz sg by (simp add: mat4_srt_finite_def sc vec3_new_def)
  qed
qed

end
