(* ===== verification/Gizmo.thy ===== *)
theory Gizmo
  imports Glam
begin

text \<open>
  The transform gizmo of \<open>src/blackjack_engine/src/gizmos.rs\<close>: a struct of translation,
  rotation (a quaternion) and scale; a constructor and setters that take the rotation as
  XYZ Euler angles; getters that return it as Euler angles; and the conversions to and
  from a 4x4 affine matrix used by the viewport. The methods marked \<open>#[lua]\<close> form the
  Lua API of the gizmo (\<open>lua_method\<close>, \<open>lua_invoke\<close>); \<open>matrix\<close> and
  \<open>set_from_matrix\<close> are Rust-only. \<open>LVec3\<close> is the Lua newtype around \<open>Vec3\<close>
  and is modelled by \<open>vec3\<close> itself.
\<close>

section \<open>State and operations\<close>

record TransformGizmo =
  translation :: vec3
  rotation :: quat
  scale :: vec3

text \<open>\<open>tr_gizmo::new\<close>: rotation given as XYZ Euler angles.\<close>

definition TransformGizmo_new :: "vec3 \<Rightarrow> vec3 \<Rightarrow> vec3 \<Rightarrow> TransformGizmo" where
  "TransformGizmo_new tr rot sc =
     (let (rx, ry, rz) = (x3 rot, y3 rot, z3 rot)
      in \<lparr>translation = tr, rotation = quat_from_euler_xyz rx ry rz, scale = sc\<rparr>)"

definition get_translation :: "TransformGizmo \<Rightarrow> vec3" where
  "get_translation g = translation g"

definition set_translation :: "TransformGizmo \<Rightarrow> vec3 \<Rightarrow> TransformGizmo" where
  "set_translation g tr = g\<lparr>translation := tr\<rparr>"

definition get_rotation :: "TransformGizmo \<Rightarrow> vec3" where
  "get_rotation g = (let (a, b, c) = quat_to_euler_xyz (rotation g) in vec3_new a b c)"

definition set_rotation :: "TransformGizmo \<Rightarrow> vec3 \<Rightarrow> TransformGizmo" where
  "set_rotation g rot =
     (let (rx, ry, rz) = (x3 rot, y3 rot, z3 rot)
      in g\<lparr>rotation := quat_from_euler_xyz rx ry rz\<rparr>)"

definition get_scale :: "TransformGizmo \<Rightarrow> vec3" where
  "get_scale g = scale g"

definition set_scale :: "TransformGizmo \<Rightarrow> vec3 \<Rightarrow> TransformGizmo" where
  "set_scale g tr = g\<lparr>scale := tr\<rparr>"

definition matrix :: "TransformGizmo \<Rightarrow> mat4" where
  "matrix g = mat4_from_scale_rotation_translation (scale g) (rotation g) (translation g)"

text \<open>
  \<open>set_from_matrix\<close>: the rotation \<open>r\<close> returned by the decomposition is a
  quaternion, and the code passes its components \<open>r.x, r.y, r.z\<close> to
  \<open>Quat::from_euler\<close> as if they were Euler angles (line 78).
\<close>

definition set_from_matrix :: "TransformGizmo \<Rightarrow> mat4 \<Rightarrow> TransformGizmo" where
  "set_from_matrix g m =
     (let (s, r, t) = mat4_to_scale_rotation_translation m
      in g\<lparr>scale := s, translation := t, rotation := quat_from_euler_xyz (qx r) (qy r) (qz r)\<rparr>)"

section \<open>The Lua API\<close>

text \<open>
  The methods the \<open>#[blackjack_lua_module]\<close> exports on a gizmo object: the
  \<open>#[lua]\<close> getters and setters. A call returns the updated gizmo and, for a getter,
  the \<open>LVec3\<close> it hands back to Lua.
\<close>

datatype lua_method =
    Lua_translation
  | Lua_set_translation vec3
  | Lua_rotation
  | Lua_set_rotation vec3
  | Lua_scale
  | Lua_set_scale vec3

fun lua_invoke :: "TransformGizmo \<Rightarrow> lua_method \<Rightarrow> TransformGizmo \<times> vec3 option" where
  "lua_invoke g Lua_translation = (g, Some (get_translation g))"
| "lua_invoke g (Lua_set_translation v) = (set_translation g v, None)"
| "lua_invoke g Lua_rotation = (g, Some (get_rotation g))"
| "lua_invoke g (Lua_set_rotation v) = (set_rotation g v, None)"
| "lua_invoke g Lua_scale = (g, Some (get_scale g))"
| "lua_invoke g (Lua_set_scale v) = (set_scale g v, None)"

text \<open>
  The gizmos of the real-valued model: made by \<open>TransformGizmo.new\<close>, then changed
  by Lua calls and by the viewport's \<open>set_from_matrix\<close> with any matrix. Where
  \<open>set_from_matrix\<close> is given a matrix whose decomposition is not finite
  (\<open>mat4_srt_finite\<close>), the program stores NaN where this model stores reals, so
  a theorem over \<open>gizmo_reachable\<close> describes the program only where both sides are
  finite or both are NaN.
\<close>

inductive gizmo_reachable :: "TransformGizmo \<Rightarrow> bool" where
  created: "gizmo_reachable (TransformGizmo_new tr rot sc)"
| lua_call: "gizmo_reachable g \<Longrightarrow> gizmo_reachable (fst (lua_invoke g m))"
| from_matrix: "gizmo_reachable g \<Longrightarrow> gizmo_reachable (set_from_matrix g mat)"

text \<open>
  The gizmos of runs in which every value stays finite: \<open>set_from_matrix\<close> only
  with matrices glam decomposes without a NaN. On these runs the model computes exactly
  what the program computes (rounding aside). Lua arguments are finite numbers.
\<close>

inductive gizmo_finite :: "TransformGizmo \<Rightarrow> bool" where
  created: "gizmo_finite (TransformGizmo_new tr rot sc)"
| lua_call: "gizmo_finite g \<Longrightarrow> gizmo_finite (fst (lua_invoke g m))"
| from_matrix: "gizmo_finite g \<Longrightarrow> mat4_srt_finite mat \<Longrightarrow> gizmo_finite (set_from_matrix g mat)"

section \<open>The rotation stays a unit quaternion\<close>

text \<open>
  Every operation that writes the rotation writes \<open>Quat::from_euler\<close> of something, so
  over finite values the stored quaternion is a rotation whatever the inputs: the Euler
  angles given to \<open>new\<close> and \<open>set_rotation\<close>, or the matrix given to
  \<open>set_from_matrix\<close>. In the program, \<open>from_euler\<close> of a NaN component is NaN,
  so the invariant is stated for the runs of \<open>gizmo_finite\<close> (C1); each preservation
  lemma below is one step of the rule induction.
\<close>

definition gizmo_inv :: "TransformGizmo \<Rightarrow> bool" where
  "gizmo_inv g \<longleftrightarrow> quat_unit (rotation g)"

lemma gizmo_inv_new: "gizmo_inv (TransformGizmo_new tr rot sc)"
  by (auto simp: gizmo_inv_def TransformGizmo_new_def)

lemma gizmo_inv_lua_invoke: "gizmo_inv g \<Longrightarrow> gizmo_inv (fst (lua_invoke g m))"
  by (cases m) (auto simp: gizmo_inv_def set_translation_def set_rotation_def set_scale_def)

lemma gizmo_inv_set_from_matrix: "gizmo_inv (set_from_matrix g mat)"
  by (auto simp: gizmo_inv_def set_from_matrix_def split: prod.splits)

lemma gizmo_reachable_inv: "gizmo_reachable g \<Longrightarrow> gizmo_inv g"
proof (induction rule: gizmo_reachable.induct)
  case (created tr rot sc)
  show ?case by (rule gizmo_inv_new)
next
  case (lua_call g m)
  from lua_call.IH show ?case by (rule gizmo_inv_lua_invoke)
next
  case (from_matrix g mat)
  show ?case by (rule gizmo_inv_set_from_matrix)
qed

lemma gizmo_finite_inv: "gizmo_finite g \<Longrightarrow> gizmo_inv g"
proof (induction rule: gizmo_finite.induct)
  case (created tr rot sc)
  show ?case by (rule gizmo_inv_new)
next
  case (lua_call g m)
  from lua_call.IH show ?case by (rule gizmo_inv_lua_invoke)
next
  case (from_matrix g mat)
  show ?case by (rule gizmo_inv_set_from_matrix)
qed

lemma gizmo_finite_round_trip:
  assumes "gizmo_finite g" "gizmo_finite h"
    and "x3 (scale g) \<noteq> 0" "y3 (scale g) \<noteq> 0" "z3 (scale g) \<noteq> 0"
  shows "gizmo_finite (set_from_matrix h (matrix g))"
proof (rule gizmo_finite.from_matrix [OF assms(2)])
  have u: "quat_unit (rotation g)" using gizmo_finite_inv [OF assms(1)] by (simp add: gizmo_inv_def)
  show "mat4_srt_finite (matrix g)"
    using srt_finite_from_scale_rotation_translation [OF u] assms(3-5) by (simp add: matrix_def)
qed

lemma set_from_matrix_fields:
  "scale (set_from_matrix g m) = fst (mat4_to_scale_rotation_translation m)"
  "translation (set_from_matrix g m) = snd (snd (mat4_to_scale_rotation_translation m))"
  "rotation (set_from_matrix g m) =
     (let r = fst (snd (mat4_to_scale_rotation_translation m))
      in quat_from_euler_xyz (qx r) (qy r) (qz r))"
  by (simp_all add: set_from_matrix_def split: prod.split)

text \<open>
  C1. Invariant: every gizmo of a run in which every value stays finite (created by
  \<open>new\<close>, then changed by any sequence of Lua calls and of \<open>set_from_matrix\<close>
  calls with matrices glam decomposes without a NaN) holds a unit quaternion as its
  rotation.
\<close>

theorem gizmo_finite_unit_rotation: "gizmo_finite g \<Longrightarrow> quat_unit (rotation g)"
  using gizmo_finite_inv by (simp add: gizmo_inv_def)

theorem gizmo_finite_unit_rotation_witness:
  "let g0 = TransformGizmo_new (vec3_new 1 2 3) (vec3_new 0 0 0) (vec3_new 1 1 1);
       g = set_from_matrix (set_scale g0 (vec3_new 2 (-1) 3)) (matrix g0)
   in gizmo_finite g \<and> quat_unit (rotation g)"
proof -
  let ?k = "TransformGizmo_new (vec3_new 1 2 3) (vec3_new 0 0 0) (vec3_new 1 1 1)"
  let ?g = "set_from_matrix (set_scale ?k (vec3_new 2 (-1) 3)) (matrix ?k)"
  have g0: "gizmo_finite ?k" by (rule gizmo_finite.created)
  have "gizmo_finite (fst (lua_invoke ?k (Lua_set_scale (vec3_new 2 (-1) 3))))"
    by (rule gizmo_finite.lua_call [OF g0])
  then have h: "gizmo_finite (set_scale ?k (vec3_new 2 (-1) 3))" by simp
  have r: "gizmo_finite ?g"
    using gizmo_finite_round_trip [OF g0 h] by (simp add: TransformGizmo_new_def vec3_new_def)
  show ?thesis using r gizmo_finite_unit_rotation [OF r] by simp
qed

section \<open>Euler angles through the Lua API\<close>

text \<open>
  C2. Round trip: the rotation read back by \<open>rotation()\<close> after
  \<open>set_rotation(rot)\<close> is \<open>rot\<close> itself, for XYZ Euler angles in the principal
  range (first and third in \<open>(-pi, pi]\<close>, second in \<open>(-pi/2, pi/2)\<close>).
\<close>

theorem get_rotation_set_rotation:
  assumes "- pi < x3 rot" "x3 rot \<le> pi" "- (pi/2) < y3 rot" "y3 rot < pi/2"
    "- pi < z3 rot" "z3 rot \<le> pi"
  shows "get_rotation (set_rotation g rot) = rot"
  using quat_to_euler_xyz_from_euler [OF assms]
  by (simp add: get_rotation_def set_rotation_def vec3_new_def)

theorem get_rotation_set_rotation_witness:
  "- pi < (1::real) \<and> 1 \<le> pi \<and> - (pi/2) < (1/2::real) \<and> 1/2 < pi/2 \<and> - pi < (-1::real)
   \<and> -1 \<le> pi
   \<and> get_rotation (set_rotation (TransformGizmo_new (vec3_new 0 0 0) (vec3_new 0 0 0) (vec3_new 1 1 1))
        (vec3_new 1 (1/2) (-1))) = vec3_new 1 (1/2) (-1)"
  using get_rotation_set_rotation
    [of "vec3_new 1 (1/2) (-1)" "TransformGizmo_new (vec3_new 0 0 0) (vec3_new 0 0 0) (vec3_new 1 1 1)"]
    pi_ge_two
  by (simp add: vec3_new_def)

section \<open>The matrix round trip loses the rotation\<close>

text \<open>
  A gizmo turned by a half turn about X (Euler angles \<open>(pi, 0, 0)\<close>, unit scale, no
  translation): its rotation is the quaternion \<open>(1, 0, 0, 0)\<close>, its matrix is
  \<open>diag(1, -1, -1, 1)\<close>, and glam decomposes that matrix back into unit scale, the same
  quaternion and zero translation.
\<close>

lemma half_turn_x_rotation:
  "rotation (TransformGizmo_new (vec3_new 0 0 0) (vec3_new pi 0 0) (vec3_new 1 1 1))
   = quat_from_xyzw 1 0 0 0"
  by (simp add: TransformGizmo_new_def vec3_new_def quat_from_euler_xyz_product quat_mul_def
      quat_from_xyzw_def quat_from_rotation_x_def quat_from_rotation_y_def quat_from_rotation_z_def)

lemma half_turn_x_matrix:
  "matrix (TransformGizmo_new (vec3_new 0 0 0) (vec3_new pi 0 0) (vec3_new 1 1 1)) =
   \<lparr>x_axis = \<lparr>x4 = 1, y4 = 0, z4 = 0, w4 = 0\<rparr>, y_axis = \<lparr>x4 = 0, y4 = -1, z4 = 0, w4 = 0\<rparr>,
    z_axis = \<lparr>x4 = 0, y4 = 0, z4 = -1, w4 = 0\<rparr>, w_axis = \<lparr>x4 = 0, y4 = 0, z4 = 0, w4 = 1\<rparr>\<rparr>"
  unfolding matrix_def half_turn_x_rotation
  by (simp add: TransformGizmo_new_def vec3_new_def mat4_from_scale_rotation_translation_def
      quat_to_axes_def quat_from_xyzw_def vec4_mul_def vec4_from_vec3_def)

lemma half_turn_x_decompose:
  "mat4_to_scale_rotation_translation
     \<lparr>x_axis = \<lparr>x4 = 1, y4 = 0, z4 = 0, w4 = 0\<rparr>, y_axis = \<lparr>x4 = 0, y4 = -1, z4 = 0, w4 = 0\<rparr>,
      z_axis = \<lparr>x4 = 0, y4 = 0, z4 = -1, w4 = 0\<rparr>, w_axis = \<lparr>x4 = 0, y4 = 0, z4 = 0, w4 = 1\<rparr>\<rparr>
   = (vec3_new 1 1 1, quat_from_xyzw 1 0 0 0, vec3_new 0 0 0)"
  by (simp add: mat4_to_scale_rotation_translation_def mat4_determinant_def f32_signum_def
      vec4_length_def vec3_new_def vec4_xyz_def vec4_mul_def quat_from_rotation_axes_def Let_def
      quat_from_xyzw_def)

text \<open>
  C3. \<open>set_from_matrix(matrix())\<close> does not give back the gizmo's rotation: for the
  half-turn gizmo the Lua getter \<open>rotation()\<close> reads \<open>(pi, 0, 0)\<close> before and
  \<open>(1, 0, 0)\<close> after, because line 78 passes the quaternion's components
  \<open>(1, 0, 0)\<close> to \<open>Quat::from_euler\<close> as Euler angles.
\<close>

theorem set_from_matrix_misreads_rotation:
  "let g = TransformGizmo_new (vec3_new 0 0 0) (vec3_new pi 0 0) (vec3_new 1 1 1)
   in get_rotation g = vec3_new pi 0 0 \<and> get_rotation (set_from_matrix g (matrix g)) = vec3_new 1 0 0"
proof -
  let ?g = "TransformGizmo_new (vec3_new 0 0 0) (vec3_new pi 0 0) (vec3_new 1 1 1)"
  have before: "quat_to_euler_xyz (quat_from_euler_xyz pi 0 0) = (pi, 0, 0)"
    by (rule quat_to_euler_xyz_from_euler) simp_all
  have after: "quat_to_euler_xyz (quat_from_euler_xyz 1 0 0) = (1, 0, 0)"
    using pi_ge_two by (intro quat_to_euler_xyz_from_euler) simp_all
  have "rotation (set_from_matrix ?g (matrix ?g)) = quat_from_euler_xyz 1 0 0"
    by (simp add: set_from_matrix_def half_turn_x_matrix half_turn_x_decompose quat_from_xyzw_def)
  then have "get_rotation (set_from_matrix ?g (matrix ?g)) = vec3_new 1 0 0"
    by (simp add: get_rotation_def after)
  moreover have "get_rotation ?g = vec3_new pi 0 0"
    by (simp add: get_rotation_def TransformGizmo_new_def vec3_new_def before)
  ultimately show ?thesis by simp
qed

section \<open>The matrix of a gizmo\<close>

text \<open>
  C4. Refinement: after \<open>set_rotation(rot)\<close>, the gizmo's \<open>matrix()\<close> maps a point
  \<open>p\<close> to \<open>Rx(rot.x) Ry(rot.y) Rz(rot.z) (scale * p) + translation\<close>: the affine map
  that scales, applies the XYZ Euler rotation the Lua API promises, and translates.
\<close>

theorem matrix_set_rotation_transform:
  "mat4_transform_point3 (matrix (set_rotation g rot)) p =
   vec3_add (rotate_x (x3 rot) (rotate_y (y3 rot) (rotate_z (z3 rot) (vec3_mul (scale g) p))))
     (translation g)"
  by (simp add: matrix_def set_rotation_def transform_from_scale_rotation_translation
      quat_unit_from_euler_xyz quat_rotate_from_euler_xyz)

text \<open>
  C5. Round trip of the matrix on the parts the code gets right: for a gizmo of a finite
  run with a positive scale, \<open>set_from_matrix(matrix())\<close>, applied to any gizmo,
  stores its scale and its translation.
\<close>

theorem set_from_matrix_restores_scale_translation:
  assumes "gizmo_finite g" "0 < x3 (scale g)" "0 < y3 (scale g)" "0 < z3 (scale g)"
  shows "get_scale (set_from_matrix h (matrix g)) = get_scale g
       \<and> get_translation (set_from_matrix h (matrix g)) = get_translation g"
proof -
  let ?d = "mat4_to_scale_rotation_translation (matrix g)"
  have u: "quat_unit (rotation g)" using gizmo_finite_inv [OF assms(1)] by (simp add: gizmo_inv_def)
  have "0 < x3 (scale g) * y3 (scale g) * z3 (scale g)" using assms(2-4) by simp
  then have sg: "f32_signum (x3 (scale g) * y3 (scale g) * z3 (scale g)) = 1"
    by (simp add: f32_signum_def)
  have "fst ?d = scale g"
    using assms(2-4) to_scale_rotation_translation_from(1) [OF u]
    by (simp add: matrix_def sg vec3_new_def)
  moreover have "snd (snd ?d) = translation g"
    using to_scale_rotation_translation_from(2) [OF u] by (simp add: matrix_def)
  ultimately show ?thesis
    by (simp add: set_from_matrix_fields get_scale_def get_translation_def)
qed

theorem set_from_matrix_restores_scale_translation_witness:
  "let g = TransformGizmo_new (vec3_new 1 2 3) (vec3_new (1/2) (-1) 2) (vec3_new 2 (1/2) 5);
       h = TransformGizmo_new (vec3_new 0 0 0) (vec3_new 0 0 0) (vec3_new 1 1 1)
   in gizmo_finite g \<and> 0 < x3 (scale g) \<and> 0 < y3 (scale g) \<and> 0 < z3 (scale g)
      \<and> get_scale (set_from_matrix h (matrix g)) = vec3_new 2 (1/2) 5
      \<and> get_translation (set_from_matrix h (matrix g)) = vec3_new 1 2 3"
proof -
  let ?g = "TransformGizmo_new (vec3_new 1 2 3) (vec3_new (1/2) (-1) 2) (vec3_new 2 (1/2) 5)"
  let ?h = "TransformGizmo_new (vec3_new 0 0 0) (vec3_new 0 0 0) (vec3_new 1 1 1)"
  have r: "gizmo_finite ?g" by (rule gizmo_finite.created)
  have p: "0 < x3 (scale ?g)" "0 < y3 (scale ?g)" "0 < z3 (scale ?g)"
    by (simp_all add: TransformGizmo_new_def vec3_new_def)
  show ?thesis using set_from_matrix_restores_scale_translation [OF r p, of ?h] r p
    by (simp add: get_scale_def get_translation_def TransformGizmo_new_def)
qed

text \<open>
  C6. Error path of the viewport round trip: glam decomposes \<open>matrix()\<close> of a gizmo
  of a finite run without producing a NaN exactly when no scale component is zero. A
  zero component makes line 75 compute \<open>0 * inf\<close>, and line 78 stores a NaN rotation.
\<close>

theorem matrix_decomposition_finite:
  assumes "gizmo_finite g"
  shows "mat4_srt_finite (matrix g) \<longleftrightarrow>
           x3 (scale g) \<noteq> 0 \<and> y3 (scale g) \<noteq> 0 \<and> z3 (scale g) \<noteq> 0"
proof -
  have u: "quat_unit (rotation g)" using gizmo_finite_inv [OF assms] by (simp add: gizmo_inv_def)
  show ?thesis unfolding matrix_def by (rule srt_finite_from_scale_rotation_translation [OF u])
qed

theorem matrix_decomposition_finite_witness:
  "let g = TransformGizmo_new (vec3_new 0 0 0) (vec3_new 0 0 0) (vec3_new 0 1 1)
   in gizmo_finite g \<and> \<not> mat4_srt_finite (matrix g)
      \<and> mat4_srt_finite (matrix (set_scale g (vec3_new (-2) 1 (-1))))"
proof -
  let ?g = "TransformGizmo_new (vec3_new 0 0 0) (vec3_new 0 0 0) (vec3_new 0 1 1)"
  have r: "gizmo_finite ?g" by (rule gizmo_finite.created)
  have "gizmo_finite (fst (lua_invoke ?g (Lua_set_scale (vec3_new (-2) 1 (-1)))))"
    by (rule gizmo_finite.lua_call [OF r])
  then have r2: "gizmo_finite (set_scale ?g (vec3_new (-2) 1 (-1)))" by simp
  show ?thesis
    using matrix_decomposition_finite [OF r] matrix_decomposition_finite [OF r2] r
    by (simp add: TransformGizmo_new_def set_scale_def vec3_new_def)
qed

text \<open>
  C7. The matrix of a gizmo of a finite run preserves orientation and carries the scale:
  its determinant is \<open>sx sy sz\<close> and its three columns have lengths
  \<open>|sx|, |sy|, |sz|\<close>, which is what lets glam read the scale back.
\<close>

theorem matrix_determinant_column_lengths:
  assumes "gizmo_finite g"
  shows "mat4_determinant (matrix g) = x3 (scale g) * y3 (scale g) * z3 (scale g)
       \<and> vec4_length (x_axis (matrix g)) = \<bar>x3 (scale g)\<bar>
       \<and> vec4_length (y_axis (matrix g)) = \<bar>y3 (scale g)\<bar>
       \<and> vec4_length (z_axis (matrix g)) = \<bar>z3 (scale g)\<bar>"
proof -
  have u: "quat_unit (rotation g)" using gizmo_finite_inv [OF assms] by (simp add: gizmo_inv_def)
  show ?thesis
    using determinant_from_scale_rotation_translation [OF u] quat_to_axes_unit_length [OF u]
    by (simp add: matrix_def mat4_from_scale_rotation_translation_axes vec4_length_mul)
qed

theorem matrix_determinant_column_lengths_witness:
  "let g = TransformGizmo_new (vec3_new 1 2 3) (vec3_new 1 (1/2) (-1)) (vec3_new 2 (-3) 5)
   in gizmo_finite g \<and> mat4_determinant (matrix g) = -30
      \<and> vec4_length (x_axis (matrix g)) = 2 \<and> vec4_length (y_axis (matrix g)) = 3
      \<and> vec4_length (z_axis (matrix g)) = 5"
proof -
  let ?g = "TransformGizmo_new (vec3_new 1 2 3) (vec3_new 1 (1/2) (-1)) (vec3_new 2 (-3) 5)"
  have r: "gizmo_finite ?g" by (rule gizmo_finite.created)
  show ?thesis using matrix_determinant_column_lengths [OF r] r
    by (simp add: TransformGizmo_new_def vec3_new_def)
qed

section \<open>The Lua API contract\<close>

text \<open>
  C8. Equivalence: the constructor \<open>TransformGizmo.new(t, r, s)\<close> builds the same gizmo
  as setting translation, rotation and scale, in that order, on any gizmo: \<open>new\<close> and
  \<open>set_rotation\<close> convert Euler angles the same way.
\<close>

theorem new_eq_setters:
  "TransformGizmo_new tr rot sc = set_scale (set_rotation (set_translation g tr) rot) sc"
  by (simp add: TransformGizmo_new_def set_scale_def set_rotation_def set_translation_def)

text \<open>
  C9. Gimbal lock: outside the range of C2, the Lua round trip
  \<open>g:set_rotation(g:rotation())\<close> changes the gizmo. With Euler angles
  \<open>(1, pi/2, 0)\<close>, \<open>rotation()\<close> reads \<open>(0, pi/2, 0)\<close>, and the matrix
  rebuilt from that reading maps \<open>(0, 1, 0)\<close> to itself where the original matrix
  maps it to \<open>(0, cos 1, sin 1)\<close>.
\<close>

theorem set_rotation_get_rotation_gimbal_lock:
  "let g = set_rotation (TransformGizmo_new (vec3_new 0 0 0) (vec3_new 0 0 0) (vec3_new 1 1 1))
             (vec3_new 1 (pi/2) 0)
   in get_rotation g = vec3_new 0 (pi/2) 0
      \<and> mat4_transform_point3 (matrix g) (vec3_new 0 1 0) = vec3_new 0 (cos 1) (sin 1)
      \<and> mat4_transform_point3 (matrix (set_rotation g (get_rotation g))) (vec3_new 0 1 0)
          = vec3_new 0 1 0
      \<and> matrix (set_rotation g (get_rotation g)) \<noteq> matrix g"
proof -
  let ?k = "TransformGizmo_new (vec3_new 0 0 0) (vec3_new 0 0 0) (vec3_new 1 1 1)"
  let ?g = "set_rotation ?k (vec3_new 1 (pi/2) 0)"
  have get: "get_rotation ?g = vec3_new 0 (pi/2) 0"
    by (simp add: get_rotation_def set_rotation_def vec3_new_def quat_to_euler_xyz_gimbal_lock)
  have tr: "mat4_transform_point3 (matrix (set_rotation h rot)) p =
      vec3_add (rotate_x (x3 rot) (rotate_y (y3 rot) (rotate_z (z3 rot) (vec3_mul (scale h) p))))
        (translation h)" for h rot p
    by (simp add: matrix_def set_rotation_def transform_from_scale_rotation_translation
        quat_unit_from_euler_xyz quat_rotate_from_euler_xyz)
  have before: "mat4_transform_point3 (matrix ?g) (vec3_new 0 1 0) = vec3_new 0 (cos 1) (sin 1)"
    unfolding tr
    by (simp add: TransformGizmo_new_def vec3_new_def vec3_add_def vec3_mul_def rotate_x_def
        rotate_y_def rotate_z_def)
  have after: "mat4_transform_point3 (matrix (set_rotation ?g (get_rotation ?g))) (vec3_new 0 1 0)
      = vec3_new 0 1 0"
    unfolding tr get
    by (simp add: TransformGizmo_new_def set_rotation_def vec3_new_def vec3_add_def vec3_mul_def
        rotate_x_def rotate_y_def rotate_z_def)
  have "sin (1::real) \<noteq> 0"
    using pi_ge_two by (intro sin_gt_zero [THEN less_imp_neq, symmetric]) simp_all
  then have "matrix (set_rotation ?g (get_rotation ?g)) \<noteq> matrix ?g"
    using before after by (auto simp: vec3_new_def)
  with get before after show ?thesis by simp
qed

section \<open>What set_from_matrix does to the rotation\<close>

text \<open>
  C11. For every reachable gizmo with a positive scale, the rotation that
  \<open>set_from_matrix(matrix())\<close> stores is \<open>Quat::from_euler\<close> applied to the
  gizmo's own quaternion components \<open>x, y, z\<close> (up to one common sign): glam gives the
  quaternion back, and line 78 reads its components as Euler angles.
\<close>

theorem set_from_matrix_rotation_from_components:
  assumes "gizmo_reachable g" "0 < x3 (scale g)" "0 < y3 (scale g)" "0 < z3 (scale g)"
  shows "\<exists>\<sigma>. (\<sigma> = 1 \<or> \<sigma> = -1) \<and>
    rotation (set_from_matrix g (matrix g)) =
      quat_from_euler_xyz (\<sigma> * qx (rotation g)) (\<sigma> * qy (rotation g)) (\<sigma> * qz (rotation g))"
proof -
  have u: "quat_unit (rotation g)" using gizmo_reachable_inv [OF assms(1)] by (simp add: gizmo_inv_def)
  obtain \<sigma> where \<sigma>: "\<sigma> = 1 \<or> \<sigma> = -1"
    and r: "fst (snd (mat4_to_scale_rotation_translation (matrix g))) =
      quat_from_xyzw (\<sigma> * qx (rotation g)) (\<sigma> * qy (rotation g)) (\<sigma> * qz (rotation g))
        (\<sigma> * qw (rotation g))"
    using to_scale_rotation_translation_rotation [OF u assms(2-4)] by (auto simp: matrix_def)
  then show ?thesis by (intro exI [of _ \<sigma>]) (simp add: set_from_matrix_fields quat_from_xyzw_def)
qed

theorem set_from_matrix_rotation_from_components_witness:
  "let g = TransformGizmo_new (vec3_new 1 2 3) (vec3_new (1/2) (-1) 2) (vec3_new 2 (1/2) 5)
   in gizmo_reachable g \<and> 0 < x3 (scale g) \<and> 0 < y3 (scale g) \<and> 0 < z3 (scale g)
      \<and> (\<exists>\<sigma>. (\<sigma> = 1 \<or> \<sigma> = -1) \<and>
        rotation (set_from_matrix g (matrix g)) =
          quat_from_euler_xyz (\<sigma> * qx (rotation g)) (\<sigma> * qy (rotation g)) (\<sigma> * qz (rotation g)))"
proof -
  let ?g = "TransformGizmo_new (vec3_new 1 2 3) (vec3_new (1/2) (-1) 2) (vec3_new 2 (1/2) 5)"
  have r: "gizmo_reachable ?g" by (rule gizmo_reachable.created)
  have p: "0 < x3 (scale ?g)" "0 < y3 (scale ?g)" "0 < z3 (scale ?g)"
    by (simp_all add: TransformGizmo_new_def vec3_new_def)
  show ?thesis using set_from_matrix_rotation_from_components [OF r p] r p by simp
qed

section \<open>The Lua rotation round trip away from gimbal lock\<close>

text \<open>
  C13. Away from gimbal lock the Lua round trip \<open>g:set_rotation(g:rotation())\<close> keeps
  the gizmo's orientation: for every reachable gizmo whose reported pitch is strictly
  between \<open>-pi/2\<close> and \<open>pi/2\<close>, the stored quaternion becomes \<open>q\<close> or
  \<open>-q\<close> and \<open>matrix()\<close> is unchanged. (At the pitch \<open>\<plusminus>pi/2\<close> it is not, C9.)
\<close>

theorem set_rotation_get_rotation_matrix:
  assumes r: "gizmo_reachable g"
    and p: "- (pi / 2) < y3 (get_rotation g)" "y3 (get_rotation g) < pi / 2"
  shows "matrix (set_rotation g (get_rotation g)) = matrix g"
proof -
  let ?q = "rotation g"
  let ?e = "quat_to_euler_xyz ?q"
  have u: "quat_unit ?q" using gizmo_reachable_inv [OF r] by (simp add: gizmo_inv_def)
  have y: "y3 (get_rotation g) = arcsin (min (max (2 * (qx ?q * qz ?q + qw ?q * qy ?q)) (- 1)) 1)"
    by (simp add: get_rotation_def quat_to_euler_xyz_def Let_def vec3_new_def)
  have "- 1 < 2 * (qx ?q * qz ?q + qw ?q * qy ?q) \<and> 2 * (qx ?q * qz ?q + qw ?q * qy ?q) < 1"
    using p unfolding y by (rule arcsin_clamp_inside)
  then have s: "- 1 < 2 * (qx ?q * qz ?q + qw ?q * qy ?q)" "2 * (qx ?q * qz ?q + qw ?q * qy ?q) < 1"
    by simp_all
  have set: "set_rotation g (get_rotation g) =
      g\<lparr>rotation := quat_from_euler_xyz (fst ?e) (fst (snd ?e)) (snd (snd ?e))\<rparr>"
    by (simp add: set_rotation_def get_rotation_def vec3_new_def split_def Let_def)
  obtain \<sigma> where "\<sigma> = 1 \<or> \<sigma> = -1"
    and "quat_from_euler_xyz (fst ?e) (fst (snd ?e)) (snd (snd ?e)) =
      quat_from_xyzw (\<sigma> * qx ?q) (\<sigma> * qy ?q) (\<sigma> * qz ?q) (\<sigma> * qw ?q)"
    using quat_rotate_eq_sign [OF quat_unit_from_euler_xyz u quat_rotate_from_to_euler_xyz [OF u s]] by blast
  then show ?thesis
    unfolding set by (simp add: matrix_def mat4_from_scale_rotation_translation_sign)
qed

theorem set_rotation_get_rotation_matrix_witness:
  "let g = TransformGizmo_new (vec3_new 1 2 3) (vec3_new 1 (1/2) (-1)) (vec3_new 2 2 2)
   in gizmo_reachable g \<and> - (pi / 2) < y3 (get_rotation g) \<and> y3 (get_rotation g) < pi / 2
      \<and> matrix (set_rotation g (get_rotation g)) = matrix g"
proof -
  let ?g = "TransformGizmo_new (vec3_new 1 2 3) (vec3_new 1 (1/2) (-1)) (vec3_new 2 2 2)"
  have r: "gizmo_reachable ?g" by (rule gizmo_reachable.created)
  have "get_rotation ?g = vec3_new 1 (1/2) (-1)"
    using quat_to_euler_xyz_from_euler [of 1 "1/2" "-1"] pi_ge_two
    by (simp add: get_rotation_def TransformGizmo_new_def vec3_new_def)
  then have p: "- (pi / 2) < y3 (get_rotation ?g)" "y3 (get_rotation ?g) < pi / 2"
    using pi_ge_two by (simp_all add: vec3_new_def)
  show ?thesis using set_rotation_get_rotation_matrix [OF r p] r p by simp
qed

end
