(* ===== verification/Spec2Isabelle.thy ===== *)
theory Spec2Isabelle
  imports Gizmo
begin

text \<open>
  \<^bold>\<open>A verification development for the blackjack engine (DamenH/blackjack).\<close>

  \<^bold>\<open>What the repository holds.\<close> The sources present are
  \<open>src/blackjack_engine/src/lib.rs\<close> (the crate root: it declares the modules
  \<open>prelude\<close>, \<open>mesh\<close>, \<open>lua_engine\<close>, \<open>graph\<close>, \<open>graph_compiler\<close>) and
  \<open>src/blackjack_engine/src/gizmos.rs\<close>, the transform gizmo: a struct of translation
  (\<open>Vec3\<close>), rotation (\<open>Quat\<close>) and scale (\<open>Vec3\<close>), exported to Lua by
  \<open>#[blackjack_lua_module]\<close>, whose constructor and setters take the rotation as XYZ
  Euler angles and whose getters return it as such, plus two Rust-only methods that turn
  the gizmo into a 4x4 matrix and back for the viewport. The spec describes chiefly the
  graph compiler (value model, graph data model, dependency resolver, program emitter,
  diagnostics); that code (the \<open>graph\<close> and \<open>graph_compiler\<close> modules) is not among
  the sources, and the gizmo is the spec's "transform data interchange" boundary (6).

  \<^bold>\<open>Theories.\<close>
  \<^item> \<open>Prelude\<close>: the Rust float functions glam calls, with Rust's semantics over the
    reals (\<open>atan2\<close> by quadrant, \<open>f32::signum\<close> with \<open>signum 0 = 1\<close>); trigonometric
    lemmas shared by the components (half angles, \<open>atan2\<close> of a polar point, the range of
    \<open>atan2\<close>).
  \<^item> \<open>Glam\<close>: the environment. Records \<open>vec3\<close>, \<open>vec4\<close>, \<open>quat\<close>, \<open>mat4\<close>
    (columns) and the glam 0.21 operations the gizmo calls, each following the body of the
    glam function: \<open>quat_mul\<close>, \<open>quat_normalize\<close>, \<open>quat_from_rotation_x/y/z\<close>,
    \<open>quat_from_euler_xyz\<close> (\<open>Quat::from_euler(EulerRot::XYZ, ..)\<close>),
    \<open>quat_to_euler_xyz\<close> (\<open>Quat::to_euler\<close>), \<open>quat_to_axes\<close>,
    \<open>mat4_from_scale_rotation_translation\<close>, \<open>mat4_determinant\<close>,
    \<open>quat_from_rotation_axes\<close>, \<open>mat4_to_scale_rotation_translation\<close>; and reference
    notions to state them against (\<open>mat4_transform_point3\<close>, the rotation
    \<open>quat_rotate q v = q v q\<^sup>*\<close>, the axis rotations \<open>rotate_x/y/z\<close>). Its lemmas:
    unit quaternions are closed under product and \<open>from_euler\<close> yields one; \<open>from_euler\<close>
    is the intrinsic XYZ rotation \<open>Rx Ry Rz\<close>; \<open>to_euler\<close> inverts \<open>from_euler\<close> on
    the principal range and always answers within it; a scale-rotation-translation matrix
    maps \<open>p\<close> to \<open>q (s * p) q\<^sup>* + t\<close>, has unit-length rotated columns and determinant
    \<open>sx sy sz\<close>, and decomposes back to its translation, its scale (up to the sign of
    the first component) and, for a positive scale, its quaternion up to sign (each of the
    four branches of \<open>from_rotation_axes\<close> proved separately); away from gimbal lock
    \<open>from_euler\<close> of \<open>to_euler q\<close> is the rotation \<open>q\<close>, and unit quaternions
    that rotate every vector alike are equal up to a sign the matrix does not see. The
    predicate \<open>mat4_srt_finite\<close> says when \<open>to_scale_rotation_translation\<close>
    stays finite in \<open>f32\<close> (no zero scale column, a positive radicand in the branch
    \<open>from_rotation_axes\<close> takes); for a unit quaternion it holds of
    \<open>from_scale_rotation_translation s q t\<close> exactly when \<open>s\<close> has no zero
    component.
  \<^item> \<open>Gizmo\<close>: the code of \<open>gizmos.rs\<close>. The struct is the record
    \<open>TransformGizmo\<close>; \<open>tr_gizmo::new\<close> is \<open>TransformGizmo_new\<close>; the methods
    \<open>translation\<close>, \<open>rotation\<close>, \<open>scale\<close> are \<open>get_translation\<close>,
    \<open>get_rotation\<close>, \<open>get_scale\<close> (renamed: the record's fields carry the struct's
    names); \<open>set_translation\<close>, \<open>set_rotation\<close>, \<open>set_scale\<close>, \<open>matrix\<close>,
    \<open>set_from_matrix\<close> keep theirs, each returning the updated record (\<open>&mut self\<close> as
    state passing). The Lua API is the datatype \<open>lua_method\<close> of the \<open>#[lua]\<close>
    methods and the dispatch \<open>lua_invoke\<close>. Two inductive sets of states:
    \<open>gizmo_reachable\<close>, the real-valued model of every run (made by \<open>new\<close>,
    changed by Lua calls and by \<open>set_from_matrix\<close> with any matrix), and
    \<open>gizmo_finite\<close>, the runs whose \<open>set_from_matrix\<close> calls all get a matrix
    satisfying \<open>mat4_srt_finite\<close>, on which the model computes what the program does.

  \<^bold>\<open>What is proved\<close> (claims C1 to C13). The stored rotation of every gizmo of a
  finite run is a unit quaternion (C1, rule induction over \<open>gizmo_finite\<close>). The
  rotation getter inverts the setter on the principal range (C2). Conversely, the Lua round
  trip \<open>set_rotation(rotation())\<close> keeps \<open>matrix()\<close> of every reachable gizmo whose
  reported pitch is strictly inside \<open>(-pi/2, pi/2)\<close> (C13: \<open>from_euler\<close> of the
  angles \<open>to_euler\<close> reads rotates every vector as the stored quaternion does, and two
  unit quaternions that agree on every vector are equal up to sign), and at gimbal lock it
  changes the gizmo (C9). \<open>matrix()\<close> scales, applies the Euler rotation
  \<open>Rx Ry Rz\<close>, and translates (C4); for any reachable gizmo it is scale, rotation by the
  stored quaternion, translation (C10, below); it has determinant \<open>sx sy sz\<close> and
  column lengths \<open>|s|\<close> (C7). Its decomposition by glam stays finite exactly when no
  scale component is zero (C6); otherwise line 75 computes \<open>0 * inf\<close> and
  \<open>set_from_matrix\<close> stores a NaN rotation. \<open>set_from_matrix(matrix())\<close>, applied
  to any gizmo, stores the translation and a positive scale (C5) but not the rotation,
  because line 78 passes the decomposed quaternion's components to \<open>Quat::from_euler\<close>
  as Euler angles (C3, computed on a half turn about X; C11, in general: the stored
  rotation becomes \<open>from_euler(\<plusminus>q.x, \<plusminus>q.y, \<plusminus>q.z)\<close>), while glam's
  decomposition itself recovers the rotation (C12, below). The constructor equals the three
  setters (C8).

  \<^bold>\<open>Modelling choices.\<close> \<open>f32\<close> values are reals: rounding and overflow are not
  modelled, so the theorems hold of exact arithmetic. NaN and infinities are not values
  of the model; where the code produces them (a zero scale column or a non-positive
  radicand in \<open>to_scale_rotation_translation\<close>), HOL's total \<open>x / 0 = 0\<close> and
  \<open>sqrt\<close> of a negative number give finite reals instead. The predicate
  \<open>mat4_srt_finite\<close> marks exactly those inputs: theorems over \<open>gizmo_finite\<close>
  (C1, C5, C6, C7) exclude them, C6 says when they arise, and the theorems over
  \<open>gizmo_reachable\<close> (C10 to C13) are equations whose two sides the program computes
  as NaN together, or, in C13, exclude them by the pitch hypothesis. Lua arguments are
  finite numbers. glam's debug assertions (\<open>glam_assert!\<close>) are off in default builds and are not
  modelled. No loop occurs in the code, so no fuel or termination argument is needed.
  \<open>LVec3\<close> is the \<open>vec3\<close> it wraps; the code generated by the Lua macros is not
  modelled beyond which methods it exports.

  \<^bold>\<open>Not modelled, and the plan.\<close> The \<open>mesh\<close>, \<open>lua_engine\<close> and \<open>prelude\<close>
  modules are out of the spec's scope. The graph compiler (spec 3 to 7) is code of this
  repository that is not under \<open>src/\<close>; later work models it from the spec, in this
  order: the value and type model with \<open>is_assignable\<close> (a \<open>datatype\<close> of value
  types, the \<open>Transform\<close> variant carrying the gizmo's translation, Euler rotation and
  scale); the graph as a record of a node map and an output list, with \<open>add_node\<close>,
  \<open>connect\<close>, \<open>set_literal\<close>, \<open>mark_output\<close> returning \<open>compile_error + graph\<close>
  (properties: errors leave the graph unchanged, no fan-in, idempotent \<open>mark_output\<close>);
  the resolver as a depth-first search with three colours and a fuel bound of the node
  count (properties: enough fuel, the plan is a topological order of the nodes reachable
  from the outputs, each exactly once, and a reported cycle is a real cycle); the emitter
  (one binding per node, arguments referring to earlier bindings, outputs in
  \<open>mark_output\<close> order) with a refinement against an evaluation of the graph; and the
  error taxonomy of spec 7. Still open for the gizmo: a model of \<open>f32\<close> rounding for
  the bounds that depend on it.
\<close>

text \<open>
  C10. Refinement across the glam model and the gizmo: for every reachable gizmo, its
  \<open>matrix()\<close> is the affine map "scale, then rotate by the stored quaternion, then
  translate", \<open>p \<mapsto> q (scale * p) q\<^sup>* + translation\<close>.
\<close>

theorem reachable_matrix_scale_rotate_translate:
  assumes "gizmo_reachable g"
  shows "mat4_transform_point3 (matrix g) p =
           vec3_add (quat_rotate (rotation g) (vec3_mul (scale g) p)) (translation g)"
proof -
  have "quat_unit (rotation g)"
    using gizmo_reachable_inv [OF assms] by (simp add: gizmo_inv_def)
  then show ?thesis by (simp add: matrix_def transform_from_scale_rotation_translation)
qed

theorem reachable_matrix_scale_rotate_translate_witness:
  "let g = set_from_matrix (TransformGizmo_new (vec3_new 1 2 3) (vec3_new 0 0 0) (vec3_new 2 2 2))
             (matrix (TransformGizmo_new (vec3_new 0 0 0) (vec3_new 0 0 0) (vec3_new 1 1 1)))
   in gizmo_reachable g
      \<and> mat4_transform_point3 (matrix g) (vec3_new 1 0 0) =
        vec3_add (quat_rotate (rotation g) (vec3_mul (scale g) (vec3_new 1 0 0))) (translation g)"
proof -
  let ?g = "set_from_matrix (TransformGizmo_new (vec3_new 1 2 3) (vec3_new 0 0 0) (vec3_new 2 2 2))
             (matrix (TransformGizmo_new (vec3_new 0 0 0) (vec3_new 0 0 0) (vec3_new 1 1 1)))"
  have r: "gizmo_reachable ?g"
    by (rule gizmo_reachable.from_matrix [OF gizmo_reachable.created])
  show ?thesis using r reachable_matrix_scale_rotate_translate [OF r] by simp
qed

text \<open>
  C12. Where the matrix round trip goes wrong: glam's decomposition of a reachable gizmo's
  \<open>matrix()\<close> (with a positive scale) returns a quaternion that rotates every vector
  exactly as the gizmo's rotation does. The information \<open>set_from_matrix\<close> needs is
  there; it is lost only at line 78 (C3, C11).
\<close>

theorem decomposed_rotation_matches:
  assumes "gizmo_reachable g" "0 < x3 (scale g)" "0 < y3 (scale g)" "0 < z3 (scale g)"
  shows "quat_rotate (fst (snd (mat4_to_scale_rotation_translation (matrix g)))) v =
         quat_rotate (rotation g) v"
proof -
  have u: "quat_unit (rotation g)" using gizmo_reachable_inv [OF assms(1)] by (simp add: gizmo_inv_def)
  obtain \<sigma> where "\<sigma> = 1 \<or> \<sigma> = -1"
    and "fst (snd (mat4_to_scale_rotation_translation (matrix g))) =
      quat_from_xyzw (\<sigma> * qx (rotation g)) (\<sigma> * qy (rotation g)) (\<sigma> * qz (rotation g))
        (\<sigma> * qw (rotation g))"
    using to_scale_rotation_translation_rotation [OF u assms(2-4)] by (auto simp: matrix_def)
  then show ?thesis by (simp add: quat_rotate_sign)
qed

theorem decomposed_rotation_matches_witness:
  "let g = TransformGizmo_new (vec3_new 0 0 0) (vec3_new pi 0 0) (vec3_new 1 1 1)
   in gizmo_reachable g \<and> 0 < x3 (scale g) \<and> 0 < y3 (scale g) \<and> 0 < z3 (scale g)
      \<and> quat_rotate (fst (snd (mat4_to_scale_rotation_translation (matrix g)))) (vec3_new 0 1 0) =
         quat_rotate (rotation g) (vec3_new 0 1 0)"
proof -
  let ?g = "TransformGizmo_new (vec3_new 0 0 0) (vec3_new pi 0 0) (vec3_new 1 1 1)"
  have r: "gizmo_reachable ?g" by (rule gizmo_reachable.created)
  have p: "0 < x3 (scale ?g)" "0 < y3 (scale ?g)" "0 < z3 (scale ?g)"
    by (simp_all add: TransformGizmo_new_def vec3_new_def)
  show ?thesis using decomposed_rotation_matches [OF r p] r p by simp
qed

end
